theory Spec2Isabelle
  imports Main
begin

section \<open>Data model\<close>

text \<open>
  The development embeds \<^verbatim>\<open>znet.go\<close> (package \<^verbatim>\<open>znet\<close>). Every library the file calls
  (the template engine, the operating system, the YAML loader, the merge library, the
  Junos session library, the settings store) is outside the file; each is a field of an
  environment record, so every theorem holds for whatever those libraries answer.
  The path and data functions log and may panic: they return the entries they log, in
  order, next to their result or their panic.
\<close>

subsection \<open>Errors and log entries\<close>

text \<open>
  A Go \<^verbatim>\<open>error\<close> value. The only thing the code asks of an error, besides whether it
  is nil, is \<^verbatim>\<open>os.IsNotExist\<close>.
\<close>

datatype error = ErrNotExist | ErrPermission | Err string

fun IsNotExist :: "error \<Rightarrow> bool" where
  "IsNotExist ErrNotExist = True"
| "IsNotExist ErrPermission = False"
| "IsNotExist (Err msg) = False"

datatype level = DebugLevel | InfoLevel | WarnLevel | ErrorLevel

datatype logarg = AStr string | AStrs "string list" | AErr error

text \<open>One call of the logger: its level, its format string and its arguments.\<close>

datatype entry = Entry level string "logarg list"

definition Debugf :: "string \<Rightarrow> logarg list \<Rightarrow> entry" where
  "Debugf fmt args = Entry DebugLevel fmt args"

definition Infof :: "string \<Rightarrow> logarg list \<Rightarrow> entry" where
  "Infof fmt args = Entry InfoLevel fmt args"

definition Warnf :: "string \<Rightarrow> logarg list \<Rightarrow> entry" where
  "Warnf fmt args = Entry WarnLevel fmt args"

definition Error :: "error \<Rightarrow> entry" where
  "Error e = Entry ErrorLevel [] [AErr e]"

text \<open>The recurring \<^verbatim>\<open>if err != nil { log.Error(err) }\<close>.\<close>

fun log_if_err :: "error option \<Rightarrow> entry list" where
  "log_if_err None = []"
| "log_if_err (Some e) = [Error e]"

fun level_of :: "entry \<Rightarrow> level" where
  "level_of (Entry l fmt args) = l"

subsection \<open>Host data\<close>

text \<open>
  Modelled from the spec: the declaration of \<^verbatim>\<open>HostData\<close> is not in \<^verbatim>\<open>znet.go\<close>. The
  spec describes it as a recursively structured value: null, scalar, ordered-key mapping
  or sequence. The file builds it with the composite literal \<^verbatim>\<open>HostData{}\<close> and hands it
  to the merge, so a \<^verbatim>\<open>HostData\<close> itself is a mapping: a list of fields.
\<close>

datatype Value =
    Null
  | Scalar string
  | Sequence "Value list"
  | Mapping "(string \<times> Value) list"

type_synonym HostData = "(string \<times> Value) list"

subsection \<open>The records of the package\<close>

text \<open>
  Modelled from the spec: the declaration of \<^verbatim>\<open>Data\<close> (the data-hierarchy document) is
  not in \<^verbatim>\<open>znet.go\<close>; these are the four fields the file reads and the spec lists.
\<close>

record Data =
  Hierarchy :: "string list"
  TemplatePaths :: "string list"
  DataDir :: string
  TemplateDir :: string

text \<open>
  \<^verbatim>\<open>type Znet struct\<close>. The types \<^verbatim>\<open>Config\<close> and \<^verbatim>\<open>*Listener\<close> are declared elsewhere
  and never inspected here: they are type parameters.
\<close>

record ('c, 'l) Znet =
  ConfigDir :: string
  Config :: 'c
  Data :: Data
  listener :: 'l

text \<open>
  Modelled from the spec: the declaration of \<^verbatim>\<open>NetworkHost\<close> is not in \<^verbatim>\<open>znet.go\<close>. The
  spec gives it a symbolic name, a connection address and the merged data; the file reads
  \<^verbatim>\<open>Name\<close> and \<^verbatim>\<open>HostName\<close> and assigns \<^verbatim>\<open>Data\<close>.
\<close>

record NetworkHost =
  Name :: string
  HostName :: string
  Data :: HostData

subsection \<open>Panics\<close>

text \<open>
  A call returns or panics. The file never recovers, so a panic ends every function on
  the call stack; Go still runs their deferred calls. What was logged before the panic
  stays logged.
\<close>

datatype 'a outcome = Returns 'a | Panics

subsection \<open>The libraries, as parameters\<close>

text \<open>
  \<^item> \<open>GetString\<close>: \<^verbatim>\<open>viper.GetString\<close>.
  \<^item> \<open>Parse name text\<close>: \<^verbatim>\<open>template.New(name).Parse(text)\<close>, the template pointer (nil
    as \<open>None\<close>) and the error.
  \<^item> \<open>Execute tmpl host\<close>: \<^verbatim>\<open>tmpl.Execute(&buf, host)\<close> on a template that is not nil and
    a fresh buffer, the bytes written to the buffer and the error (a failed execution
    returns its error with what was written so far).
  \<^item> \<open>Stat\<close>: the error of \<^verbatim>\<open>os.Stat\<close> (the file information is discarded by the code).
  \<^item> \<open>Glob\<close>: \<^verbatim>\<open>filepath.Glob\<close>, an error or the matches in the order the library
    gives them.
  \<^item> \<open>ReadFile\<close>: \<^verbatim>\<open>ioutil.ReadFile\<close>, the bytes and the error.
  \<^item> \<open>Yaml\<close>: the document a data file holds, as \<^verbatim>\<open>HostData\<close>, or the error of reading
    or decoding it.
\<close>

record 't Lib =
  GetString :: "string \<Rightarrow> string"
  Parse :: "string \<Rightarrow> string \<Rightarrow> 't option \<times> error option"
  Execute :: "'t \<Rightarrow> NetworkHost \<Rightarrow> string \<times> error option"
  Stat :: "string \<Rightarrow> error option"
  Glob :: "string \<Rightarrow> error + string list"
  ReadFile :: "string \<Rightarrow> string \<times> error option"
  Yaml :: "string \<Rightarrow> error + HostData"

section \<open>Path resolution\<close>

subsection \<open>TemplateStringsForDevice\<close>

text \<open>
  \<^verbatim>\<open>tmpl.Execute(&buf, host)\<close> on the pointer the file holds. The file makes the call
  on whatever \<open>Parse\<close> returned, also after a parse error, when the pointer is nil: the
  engine dereferences it, which is a run-time panic.
\<close>

definition Execute_on ::
  "'t Lib \<Rightarrow> 't option \<Rightarrow> NetworkHost \<Rightarrow> (string \<times> error option) outcome" where
  "Execute_on lib tmpl host =
     (case tmpl of None \<Rightarrow> Panics | Some t \<Rightarrow> Returns (Execute lib t host))"

text \<open>
  The body of the \<^verbatim>\<open>for _, t := range templates\<close> loop: parse, log a parse error,
  execute into a fresh buffer, log an execution error, yield \<^verbatim>\<open>buf.String()\<close>.
\<close>

definition render_string ::
  "'t Lib \<Rightarrow> NetworkHost \<Rightarrow> string \<Rightarrow> string outcome \<times> entry list" where
  "render_string lib host t =
     (let (tmpl, err) = Parse lib ''template'' t;
          lg = log_if_err err
      in case Execute_on lib tmpl host of
           Panics \<Rightarrow> (Panics, lg)
         | Returns (buf, err) \<Rightarrow> (Returns buf, lg @ log_if_err err))"

fun TemplateStrings_loop ::
  "'t Lib \<Rightarrow> NetworkHost \<Rightarrow> string list \<Rightarrow> string list \<times> entry list
     \<Rightarrow> string list outcome \<times> entry list" where
  "TemplateStrings_loop lib host [] (strings, lg) = (Returns strings, lg)"
| "TemplateStrings_loop lib host (t # ts) (strings, lg) =
     (case render_string lib host t of
        (Panics, lg') \<Rightarrow> (Panics, lg @ lg')
      | (Returns s, lg') \<Rightarrow> TemplateStrings_loop lib host ts (strings @ [s], lg @ lg'))"

definition TemplateStringsForDevice ::
  "'t Lib \<Rightarrow> NetworkHost \<Rightarrow> string list \<Rightarrow> string list outcome \<times> entry list" where
  "TemplateStringsForDevice lib host templates = TemplateStrings_loop lib host templates ([], [])"

subsection \<open>HierarchyForDevice\<close>

text \<open>\<^verbatim>\<open>fmt.Sprintf("%s/%s/%s", a, b, c)\<close>\<close>

definition Sprintf3 :: "string \<Rightarrow> string \<Rightarrow> string \<Rightarrow> string" where
  "Sprintf3 a b c = a @ ''/'' @ b @ ''/'' @ c"

fun Hierarchy_loop ::
  "'t Lib \<Rightarrow> ('c, 'l) Znet \<Rightarrow> string list \<Rightarrow> string list \<times> entry list \<Rightarrow> string list \<times> entry list" where
  "Hierarchy_loop lib z [] acc = acc"
| "Hierarchy_loop lib z (p # ps) (files, lg) =
     (let templateAbs = Sprintf3 (ConfigDir z) (DataDir (Znet.Data z)) p
      in case Stat lib templateAbs of
           None \<Rightarrow> Hierarchy_loop lib z ps (files @ [templateAbs], lg)
         | Some err \<Rightarrow>
             if IsNotExist err
             then Hierarchy_loop lib z ps
                    (files, lg @ [Warnf ''Data file %s does not exist'' [AStr templateAbs]])
             else Hierarchy_loop lib z ps (files, lg))"

definition HierarchyForDevice ::
  "'t Lib \<Rightarrow> ('c, 'l) Znet \<Rightarrow> NetworkHost \<Rightarrow> string list outcome \<times> entry list" where
  "HierarchyForDevice lib z host =
     (case TemplateStringsForDevice lib host (Hierarchy (Znet.Data z)) of
        (Panics, lg) \<Rightarrow> (Panics, lg)
      | (Returns paths, lg) \<Rightarrow>
          (let (files, lg) = Hierarchy_loop lib z paths ([], lg) in (Returns files, lg)))"

subsection \<open>TemplatesForDevice\<close>

fun Templates_loop ::
  "'t Lib \<Rightarrow> ('c, 'l) Znet \<Rightarrow> string list \<Rightarrow> string list \<times> entry list \<Rightarrow> string list \<times> entry list" where
  "Templates_loop lib z [] acc = acc"
| "Templates_loop lib z (p # ps) (files, lg) =
     (let templateAbs = Sprintf3 (ConfigDir z) (TemplateDir (Znet.Data z)) p
      in case Stat lib templateAbs of
           None \<Rightarrow>
             (let globPattern = templateAbs @ ''/*.tmpl''
              in case Glob lib globPattern of
                   Inl err \<Rightarrow> Templates_loop lib z ps (files, lg @ [Error err])
                 | Inr foundFiles \<Rightarrow> Templates_loop lib z ps (files @ foundFiles, lg))
         | Some err \<Rightarrow>
             if IsNotExist err
             then Templates_loop lib z ps
                    (files, lg @ [Warnf ''Template path %s does not exist'' [AStr templateAbs]])
             else Templates_loop lib z ps (files, lg))"

definition TemplatesForDevice ::
  "'t Lib \<Rightarrow> ('c, 'l) Znet \<Rightarrow> NetworkHost \<Rightarrow> string list outcome \<times> entry list" where
  "TemplatesForDevice lib z host =
     (case TemplateStringsForDevice lib host (TemplatePaths (Znet.Data z)) of
        (Panics, lg) \<Rightarrow> (Panics, lg)
      | (Returns paths, lg) \<Rightarrow>
          (let (files, lg) = Templates_loop lib z paths ([], lg) in (Returns files, lg)))"


section \<open>Data composition\<close>

subsection \<open>The merge\<close>

text \<open>
  Modelled from the spec: \<^verbatim>\<open>mergo.Merge\<close> with \<^verbatim>\<open>mergo.WithOverride\<close> is not in
  \<^verbatim>\<open>znet.go\<close>. The spec gives it override semantics: every field present in the newly
  loaded layer replaces the accumulator's value (scalars and sequences) or merges into it
  recursively (mappings); fields the new layer does not have are left untouched. The spec
  does not say what a null in the new layer does; here it replaces, like a scalar.
  \<open>upsert\<close> is the treatment of one field of the new layer, \<open>merge_fields\<close> runs
  over the new layer's fields in their order.
\<close>

fun merge_value :: "Value \<Rightarrow> Value \<Rightarrow> Value"
and merge_fields :: "HostData \<Rightarrow> HostData \<Rightarrow> HostData"
and upsert :: "string \<Rightarrow> Value \<Rightarrow> HostData \<Rightarrow> HostData" where
  "merge_value (Mapping a) (Mapping b) = Mapping (merge_fields a b)"
| "merge_value old new = new"
| "merge_fields dst [] = dst"
| "merge_fields dst ((k, v) # src) = merge_fields (upsert k v dst) src"
| "upsert k v [] = [(k, v)]"
| "upsert k v ((k', old) # rest) =
     (if k = k' then (k', merge_value old v) # rest else (k', old) # upsert k v rest)"

text \<open>
  Modelled from the spec: \<^verbatim>\<open>mergo.Merge(&hostData, fileHostData, mergo.WithOverride)\<close>,
  the new value of \<^verbatim>\<open>hostData\<close> and the returned error; on two values of type
  \<^verbatim>\<open>HostData\<close> the spec describes no failure.
\<close>

definition Merge_WithOverride :: "HostData \<Rightarrow> HostData \<Rightarrow> HostData \<times> error option" where
  "Merge_WithOverride dst src = (merge_fields dst src, None)"

subsection \<open>DataForDevice\<close>

text \<open>
  Modelled from the spec: \<^verbatim>\<open>loadYamlFile(f, &d)\<close> is not in \<^verbatim>\<open>znet.go\<close> and returns
  nothing. The spec has it load the file as a structured document into the target; a
  malformed document is logged as an error and the caller goes on, with the target as it
  was.
\<close>

definition loadYamlFile :: "'t Lib \<Rightarrow> string \<Rightarrow> HostData \<Rightarrow> HostData \<times> entry list" where
  "loadYamlFile lib f d = (case Yaml lib f of Inl err \<Rightarrow> (d, [Error err]) | Inr doc \<Rightarrow> (doc, []))"

fun DataForDevice_loop ::
  "'t Lib \<Rightarrow> string list \<Rightarrow> HostData \<times> entry list \<Rightarrow> HostData \<times> entry list" where
  "DataForDevice_loop lib [] acc = acc"
| "DataForDevice_loop lib (f # fs) (hostData, lg) =
     (let (fileHostData, lg') = loadYamlFile lib f [];
          (hostData', err) = Merge_WithOverride hostData fileHostData
      in DataForDevice_loop lib fs (hostData', lg @ lg' @ log_if_err err))"

definition DataForDevice ::
  "'t Lib \<Rightarrow> ('c, 'l) Znet \<Rightarrow> NetworkHost \<Rightarrow> HostData outcome \<times> entry list" where
  "DataForDevice lib z host =
     (case HierarchyForDevice lib z host of
        (Panics, lg) \<Rightarrow> (Panics, lg)
      | (Returns files, lg) \<Rightarrow>
          (let (hostData, lg) = DataForDevice_loop lib files ([], lg) in (Returns hostData, lg)))"

section \<open>Template rendering\<close>

definition RenderHostTemplateFile ::
  "'t Lib \<Rightarrow> NetworkHost \<Rightarrow> string \<Rightarrow> string outcome \<times> entry list" where
  "RenderHostTemplateFile lib host path =
     (let lg = [Debugf ''Rendering host template file %s for host %s''
                  [AStr path, AStr (Name host)]];
          (b, err) = ReadFile lib path;
          lg = lg @ log_if_err err;
          str = b;
          (tmpl, err) = Parse lib ''test'' str;
          lg = lg @ log_if_err err
      in case Execute_on lib tmpl host of
           Panics \<Rightarrow> (Panics, lg)
         | Returns (buf, err) \<Rightarrow> (Returns buf, lg @ log_if_err err))"

section \<open>The device session\<close>

subsection \<open>The session library\<close>

record AuthMethod =
  Username :: string
  PrivateKey :: string

text \<open>
  The first argument of \<^verbatim>\<open>session.Config\<close> is an \<^verbatim>\<open>interface{}\<close>: the file passes the
  list of rendered templates once and the string \<^verbatim>\<open>"rollback"\<close> once.
\<close>

datatype cfg = Templates "string list" | Command string

text \<open>
  The session library (\<^verbatim>\<open>go-junos\<close>) is not in \<^verbatim>\<open>znet.go\<close>: its functions are
  parameters. \<open>'s\<close> is the session behind the pointer \<^verbatim>\<open>session\<close> (nil as \<open>None\<close>;
  the file calls the methods on whatever \<^verbatim>\<open>NewSession\<close> returned), \<open>'d\<close> the state of
  the device and the connection, which every call may read and change.
\<close>

record ('s, 'd) Junos =
  NewSession :: "string \<Rightarrow> AuthMethod \<Rightarrow> 'd \<Rightarrow> ('s option \<times> error option) \<times> 'd"
  Lock :: "'s option \<Rightarrow> 'd \<Rightarrow> error option outcome \<times> 'd"
  Config :: "'s option \<Rightarrow> cfg \<Rightarrow> string \<Rightarrow> bool \<Rightarrow> 'd \<Rightarrow> error option outcome \<times> 'd"
  Diff :: "'s option \<Rightarrow> int \<Rightarrow> 'd \<Rightarrow> (string \<times> error option) outcome \<times> 'd"
  Commit :: "'s option \<Rightarrow> 'd \<Rightarrow> error option outcome \<times> 'd"
  Unlock :: "'s option \<Rightarrow> 'd \<Rightarrow> error option outcome \<times> 'd"
  Close :: "'s option \<Rightarrow> 'd \<Rightarrow> unit outcome \<times> 'd"

subsection \<open>The run of one call\<close>

text \<open>
  What a call of \<^verbatim>\<open>ConfigureNetworkHost\<close> does to the world: the device state, the log,
  and the trace of the calls made on the session, each with its receiver and how it came
  back.
\<close>

datatype call =
    CallLock
  | CallConfig cfg string bool
  | CallDiff int
  | CallCommit
  | CallUnlock
  | CallClose

datatype reply = Done "error option" | DiffText string "error option" | Closed | Panicked

type_synonym 's event = "'s option \<times> call \<times> reply"

record ('s, 'd) run =
  device :: 'd
  logged :: "entry list"
  trace :: "'s event list"

type_synonym ('a, 's, 'd) step = "('s, 'd) run \<Rightarrow> 'a outcome \<times> ('s, 'd) run"

text \<open>Statement sequencing: a panic skips the rest.\<close>

definition seq :: "('a, 's, 'd) step \<Rightarrow> ('a \<Rightarrow> ('b, 's, 'd) step) \<Rightarrow> ('b, 's, 'd) step" where
  "seq m k r = (case m r of (Returns a, r') \<Rightarrow> k a r' | (Panics, r') \<Rightarrow> (Panics, r'))"

definition emit :: "entry list \<Rightarrow> (unit, 's, 'd) step" where
  "emit es r = (Returns (), r\<lparr>logged := logged r @ es\<rparr>)"

text \<open>One call on the session: the device answers, the trace grows by the call.\<close>

definition invoke ::
  "('d \<Rightarrow> 'a outcome \<times> 'd) \<Rightarrow> 's option \<Rightarrow> call \<Rightarrow> ('a \<Rightarrow> reply) \<Rightarrow> ('a, 's, 'd) step" where
  "invoke f session c rep r =
     (case f (device r) of
        (Returns a, d) \<Rightarrow>
          (Returns a, r\<lparr>device := d, trace := trace r @ [(session, c, rep a)]\<rparr>)
      | (Panics, d) \<Rightarrow>
          (Panics, r\<lparr>device := d, trace := trace r @ [(session, c, Panicked)]\<rparr>))"

subsection \<open>ConfigureNetworkHost\<close>

text \<open>The loop of lines 78 to 82.\<close>

fun render_loop ::
  "'t Lib \<Rightarrow> NetworkHost \<Rightarrow> string list \<Rightarrow> string list \<times> entry list
     \<Rightarrow> string list outcome \<times> entry list" where
  "render_loop lib host [] (renderedTemplates, lg) = (Returns renderedTemplates, lg)"
| "render_loop lib host (t # ts) (renderedTemplates, lg) =
     (case RenderHostTemplateFile lib host t of
        (Panics, lg') \<Rightarrow> (Panics, lg @ lg')
      | (Returns result, lg') \<Rightarrow>
          render_loop lib host ts (renderedTemplates @ [result], lg @ lg'))"

text \<open>
  Lines 85 to 120: lock, push, diff, commit or roll back when the diff is longer than one
  byte, unlock. Every error is logged and nothing else.
\<close>

definition session_steps ::
  "('s, 'd) Junos \<Rightarrow> 's option \<Rightarrow> NetworkHost \<Rightarrow> string list \<Rightarrow> bool \<Rightarrow> (unit, 's, 'd) step" where
  "session_steps junos session host renderedTemplates commit =
     seq (invoke (Lock junos session) session CallLock Done) (\<lambda>err.
     seq (emit (log_if_err err)) (\<lambda>_.
     seq (invoke (Junos.Config junos session (Templates renderedTemplates) ''text'' False)
            session (CallConfig (Templates renderedTemplates) ''text'' False) Done) (\<lambda>err.
     seq (emit (log_if_err err)) (\<lambda>_.
     seq (invoke (Diff junos session 0) session (CallDiff 0) (\<lambda>(d, e). DiffText d e))
       (\<lambda>(diff, err).
     seq (emit (log_if_err err)) (\<lambda>_.
     seq (if length diff > 1
          then
            seq (emit [Infof ''Configuration changes for %s: %s''
                         [AStr (HostName host), AStr diff]]) (\<lambda>_.
            if commit
            then
              seq (invoke (Commit junos session) session CallCommit Done) (\<lambda>err.
              emit (log_if_err err))
            else
              seq (invoke (Junos.Config junos session (Command ''rollback'') ''text'' False)
                     session (CallConfig (Command ''rollback'') ''text'' False) Done) (\<lambda>err.
              emit (log_if_err err)))
          else emit []) (\<lambda>_.
     seq (invoke (Unlock junos session) session CallUnlock Done) (\<lambda>err.
     emit (log_if_err err)))))))))"

definition add_log :: "entry list \<Rightarrow> ('s, 'd) run \<Rightarrow> ('s, 'd) run" where
  "add_log es r = r\<lparr>logged := logged r @ es\<rparr>"

text \<open>
  Lines 66 to 120, what runs between the deferral and the end of the function: how it
  ended, the host behind the pointer, and the world. The callees take \<^verbatim>\<open>*host\<close> by
  value: before line 74 they see the caller's data, after it the merged data. A panic in
  a callee ends it there.
\<close>

definition after_defer ::
  "'t Lib \<Rightarrow> ('s, 'd) Junos \<Rightarrow> ('c, 'l) Znet \<Rightarrow> NetworkHost \<Rightarrow> 's option \<Rightarrow> bool
     \<Rightarrow> ('s, 'd) run \<Rightarrow> unit outcome \<times> NetworkHost \<times> ('s, 'd) run" where
  "after_defer lib junos z host0 session commit r =
     (case TemplatesForDevice lib z host0 of
        (Panics, lg) \<Rightarrow> (Panics, host0, add_log lg r)
      | (Returns templates, lg) \<Rightarrow>
          (let r = add_log (lg @ [Debugf ''Templates for host %s: %+v''
                                    [AStr (Name host0), AStrs templates]]) r
           in case DataForDevice lib z host0 of
                (Panics, lg) \<Rightarrow> (Panics, host0, add_log lg r)
              | (Returns data, lg) \<Rightarrow>
                  (let host1 = host0\<lparr>NetworkHost.Data := data\<rparr>;
                       r = add_log lg r
                   in case render_loop lib host1 templates ([], []) of
                        (Panics, lg) \<Rightarrow> (Panics, host1, add_log lg r)
                      | (Returns renderedTemplates, lg) \<Rightarrow>
                          (let r = add_log (lg @ [Debugf ''RenderedTemplates: %+v''
                                                    [AStrs renderedTemplates]]) r;
                               (body, r) = session_steps junos session host1 renderedTemplates
                                             commit r
                           in (body, host1, r)))))"

text \<open>
  What the caller has after the call: how the call ended, the two objects it passed by
  pointer, and the world.
\<close>

record ('c, 'l, 's, 'd) result =
  ending :: "unit outcome"
  z_after :: "('c, 'l) Znet"
  host_after :: NetworkHost
  world_after :: "('s, 'd) run"

text \<open>
  The whole function. \<^verbatim>\<open>defer session.Close()\<close> comes right after the connection
  attempt, whatever its error: \<open>Close\<close> is called on \<open>session\<close> when the function
  ends, by reaching its end or by a panic.
\<close>

definition ConfigureNetworkHost ::
  "'t Lib \<Rightarrow> ('s, 'd) Junos \<Rightarrow> ('c, 'l) Znet \<Rightarrow> NetworkHost \<Rightarrow> bool \<Rightarrow> 'd
     \<Rightarrow> ('c, 'l, 's, 'd) result" where
  "ConfigureNetworkHost lib junos z host0 commit dev =
     (let auth = \<lparr>Username = GetString lib ''junos.username'',
                  PrivateKey = GetString lib ''junos.keyfile''\<rparr>;
          lg = [Debugf ''Connecting to device: %s'' [AStr (HostName host0)]];
          ((session, err), dev) = NewSession junos (HostName host0) auth dev;
          lg = lg @ log_if_err err;
          (body, host1, r) = after_defer lib junos z host0 session commit
                               \<lparr>device = dev, logged = lg, trace = []\<rparr>;
          (closed, r) = invoke (Close junos session) session CallClose (\<lambda>_. Closed) r
      in \<lparr>ending = (case body of Panics \<Rightarrow> Panics | Returns _ \<Rightarrow> closed),
          z_after = z, host_after = host1, world_after = r\<rparr>)"

section \<open>Specification-side functions\<close>

text \<open>What one rendered hierarchy entry adds to the files and to the log.\<close>

definition data_path :: "('c, 'l) Znet \<Rightarrow> string \<Rightarrow> string" where
  "data_path z p = Sprintf3 (ConfigDir z) (DataDir (Znet.Data z)) p"

definition template_path :: "('c, 'l) Znet \<Rightarrow> string \<Rightarrow> string" where
  "template_path z p = Sprintf3 (ConfigDir z) (TemplateDir (Znet.Data z)) p"

definition exists_on :: "'t Lib \<Rightarrow> string \<Rightarrow> bool" where
  "exists_on lib f = (Stat lib f = None)"

definition missing_on :: "'t Lib \<Rightarrow> string \<Rightarrow> bool" where
  "missing_on lib f = (case Stat lib f of None \<Rightarrow> False | Some e \<Rightarrow> IsNotExist e)"

definition data_warning :: "'t Lib \<Rightarrow> ('c, 'l) Znet \<Rightarrow> string \<Rightarrow> entry list" where
  "data_warning lib z p =
     (if missing_on lib (data_path z p)
      then [Warnf ''Data file %s does not exist'' [AStr (data_path z p)]] else [])"

definition found_in :: "'t Lib \<Rightarrow> string \<Rightarrow> string list" where
  "found_in lib dir = (case Glob lib (dir @ ''/*.tmpl'') of Inl err \<Rightarrow> [] | Inr fs \<Rightarrow> fs)"

definition template_files :: "'t Lib \<Rightarrow> ('c, 'l) Znet \<Rightarrow> string \<Rightarrow> string list" where
  "template_files lib z p =
     (if exists_on lib (template_path z p) then found_in lib (template_path z p) else [])"

definition template_log :: "'t Lib \<Rightarrow> ('c, 'l) Znet \<Rightarrow> string \<Rightarrow> entry list" where
  "template_log lib z p =
     (case Stat lib (template_path z p) of
        None \<Rightarrow> (case Glob lib (template_path z p @ ''/*.tmpl'') of
                   Inl err \<Rightarrow> [Error err] | Inr fs \<Rightarrow> [])
      | Some e \<Rightarrow>
          if IsNotExist e
          then [Warnf ''Template path %s does not exist'' [AStr (template_path z p)]] else [])"


definition template_warning :: "'t Lib \<Rightarrow> ('c, 'l) Znet \<Rightarrow> string \<Rightarrow> entry list" where
  "template_warning lib z p =
     (if missing_on lib (template_path z p)
      then [Warnf ''Template path %s does not exist'' [AStr (template_path z p)]] else [])"

text \<open>
  The string a path template renders to: what the engine wrote to the buffer; none when
  parsing left no template to execute.
\<close>

definition rendered :: "'t Lib \<Rightarrow> NetworkHost \<Rightarrow> string \<Rightarrow> string option" where
  "rendered lib host t =
     (case fst (Parse lib ''template'' t) of
        None \<Rightarrow> None
      | Some tmpl \<Rightarrow> Some (fst (Execute lib tmpl host)))"

text \<open>
  The template list as the spec words it: over the rendered entries of the template path
  specification in order, the matches of the glob in every directory that exists, and
  nothing for the others.
\<close>

definition TemplatesForDevice_spec :: "'t Lib \<Rightarrow> ('c, 'l) Znet \<Rightarrow> string list \<Rightarrow> string list" where
  "TemplatesForDevice_spec lib z paths =
     concat (map (\<lambda>p. let dir = template_path z p
                      in if exists_on lib dir then found_in lib dir else [])
               paths)"

definition is_warning :: "entry \<Rightarrow> bool" where
  "is_warning e = (level_of e = WarnLevel)"

text \<open>
  The data layers of a host: the documents loaded from the files of its hierarchy, in the
  order \<open>HierarchyForDevice\<close> returns them.
\<close>

definition layers :: "'t Lib \<Rightarrow> string list \<Rightarrow> HostData list" where
  "layers lib files = map (\<lambda>f. fst (loadYamlFile lib f [])) files"

text \<open>The value found by following a path of keys down nested mappings.\<close>

fun value_at :: "string list \<Rightarrow> Value \<Rightarrow> Value option" where
  "value_at [] v = Some v"
| "value_at (k # p) (Mapping m) = (case map_of m k of None \<Rightarrow> None | Some x \<Rightarrow> value_at p x)"
| "value_at (k # p) v = None"

fun is_mapping :: "Value \<Rightarrow> bool" where
  "is_mapping (Mapping m) = True"
| "is_mapping v = False"

text \<open>A mapping names each key once, at every depth.\<close>

fun unique_keys :: "Value \<Rightarrow> bool" where
  "unique_keys (Mapping m) = (distinct (map fst m) \<and> list_all (\<lambda>(k, v). unique_keys v) m)"
| "unique_keys v = True"


text \<open>The session pointer a call of \<open>ConfigureNetworkHost\<close> works with.\<close>

definition session_of :: "'t Lib \<Rightarrow> ('s, 'd) Junos \<Rightarrow> NetworkHost \<Rightarrow> 'd \<Rightarrow> 's option" where
  "session_of lib junos host dev =
     fst (fst (NewSession junos (HostName host)
                 \<lparr>Username = GetString lib ''junos.username'',
                  PrivateKey = GetString lib ''junos.keyfile''\<rparr> dev))"

text \<open>The device as the connection attempt leaves it.\<close>

definition connected :: "'t Lib \<Rightarrow> ('s, 'd) Junos \<Rightarrow> NetworkHost \<Rightarrow> 'd \<Rightarrow> 'd" where
  "connected lib junos host dev =
     snd (NewSession junos (HostName host)
            \<lparr>Username = GetString lib ''junos.username'',
             PrivateKey = GetString lib ''junos.keyfile''\<rparr> dev)"

fun call_of :: "'s event \<Rightarrow> call" where
  "call_of (session, c, rep) = c"

text \<open>The two calls that end a configuration change: the commit and the rollback command.\<close>

fun commit_or_rollback :: "call \<Rightarrow> bool" where
  "commit_or_rollback CallCommit = True"
| "commit_or_rollback (CallConfig (Command cmd) format merge) = (cmd = ''rollback'')"
| "commit_or_rollback c = False"

text \<open>
  What a trace says. \<open>perform\<close> makes the call an event names, on the session library:
  the answer as the event records it, and the device after it. \<open>replay\<close> makes the
  calls of a trace one after the other, from a given device; it ends in the device they
  leave when each call is answered as its event says, and in nothing otherwise.
\<close>

fun perform :: "('s, 'd) Junos \<Rightarrow> 's option \<Rightarrow> call \<Rightarrow> 'd \<Rightarrow> reply \<times> 'd" where
  "perform junos session CallLock d =
     (case Lock junos session d of
        (Returns err, d') \<Rightarrow> (Done err, d') | (Panics, d') \<Rightarrow> (Panicked, d'))"
| "perform junos session (CallConfig c format merge) d =
     (case Junos.Config junos session c format merge d of
        (Returns err, d') \<Rightarrow> (Done err, d') | (Panics, d') \<Rightarrow> (Panicked, d'))"
| "perform junos session (CallDiff n) d =
     (case Diff junos session n d of
        (Returns (text, err), d') \<Rightarrow> (DiffText text err, d') | (Panics, d') \<Rightarrow> (Panicked, d'))"
| "perform junos session CallCommit d =
     (case Commit junos session d of
        (Returns err, d') \<Rightarrow> (Done err, d') | (Panics, d') \<Rightarrow> (Panicked, d'))"
| "perform junos session CallUnlock d =
     (case Unlock junos session d of
        (Returns err, d') \<Rightarrow> (Done err, d') | (Panics, d') \<Rightarrow> (Panicked, d'))"
| "perform junos session CallClose d =
     (case Close junos session d of
        (Returns u, d') \<Rightarrow> (Closed, d') | (Panics, d') \<Rightarrow> (Panicked, d'))"

fun replay :: "('s, 'd) Junos \<Rightarrow> 'd \<Rightarrow> 's event list \<Rightarrow> 'd option" where
  "replay junos d [] = Some d"
| "replay junos d ((session, c, rep) # evs) =
     (case perform junos session c d of
        (rep', d') \<Rightarrow> if rep' = rep then replay junos d' evs else None)"

section \<open>A worked example\<close>

text \<open>
  One host, a configuration root with two data files and one template directory, and a
  device. The hierarchy names four layers: \<^verbatim>\<open>common.yaml\<close> and the host's own file exist,
  \<^verbatim>\<open>site.yaml\<close> does not, \<^verbatim>\<open>secret.yaml\<close> cannot be examined. Of the template paths,
  \<^verbatim>\<open>base\<close> holds two templates, \<^verbatim>\<open>absent\<close> does not exist, \<^verbatim>\<open>locked\<close> cannot be
  examined. The engine of the example knows the two expressions the files use.
\<close>

definition demo_host :: NetworkHost where
  "demo_host = \<lparr>Name = ''r1'', HostName = ''r1.net'', NetworkHost.Data = []\<rparr>"

definition demo_z :: "(unit, unit) Znet" where
  "demo_z =
     \<lparr>ConfigDir = ''/z'', Znet.Config = (),
      Znet.Data = \<lparr>Hierarchy = [''common.yaml'', ''site.yaml'', ''secret.yaml'', ''{{.Name}}.yaml''],
                   TemplatePaths = [''base'', ''absent'', ''locked''],
                   DataDir = ''d'', TemplateDir = ''t''\<rparr>,
      listener = ()\<rparr>"

definition common_yaml :: HostData where
  "common_yaml =
     [(''site'', Scalar ''east''),
      (''dns'', Scalar ''d''),
      (''ntp'', Sequence [Scalar ''a'', Scalar ''b'']),
      (''bgp'', Mapping [(''as'', Scalar ''1''), (''id'', Scalar ''0'')])]"

definition r1_yaml :: HostData where
  "r1_yaml =
     [(''site'', Scalar ''west''),
      (''role'', Scalar ''edge''),
      (''ntp'', Sequence [Scalar ''c'']),
      (''bgp'', Mapping [(''id'', Scalar ''9'')])]"

definition demo_Execute :: "string \<Rightarrow> NetworkHost \<Rightarrow> string \<times> error option" where
  "demo_Execute t h =
     (if t = ''{{.Name}}.yaml'' then (Name h @ ''.yaml'', None)
      else if t = ''A={{.Data.site}}''
      then (case map_of (NetworkHost.Data h) ''site'' of
              Some (Scalar s) \<Rightarrow> (''A='' @ s, None)
            | _ \<Rightarrow> (''A=<no value>'', None))
      else (t, None))"

definition demo_lib :: "string Lib" where
  "demo_lib =
     \<lparr>GetString = (\<lambda>key. if key = ''junos.username'' then ''admin'' else ''/id''),
      Parse = (\<lambda>name text.
        if text = ''{{.Name'' then (None, Some (Err ''unclosed action'')) else (Some text, None)),
      Execute = demo_Execute,
      Stat = (\<lambda>f.
        if f = ''/z/d/common.yaml'' \<or> f = ''/z/d/r1.yaml'' \<or> f = ''/z/t/base'' then None
        else if f = ''/z/d/secret.yaml'' \<or> f = ''/z/t/locked'' then Some ErrPermission
        else Some ErrNotExist),
      Glob = (\<lambda>pattern.
        if pattern = ''/z/t/base/*.tmpl'' then Inr [''/z/t/base/a.tmpl'', ''/z/t/base/b.tmpl'']
        else Inr []),
      ReadFile = (\<lambda>f.
        if f = ''/z/t/base/a.tmpl'' then (''A={{.Data.site}}'', None)
        else if f = ''/z/t/base/b.tmpl'' then (''B'', None)
        else ([], Some ErrNotExist)),
      Yaml = (\<lambda>f.
        if f = ''/z/d/common.yaml'' then Inr common_yaml
        else if f = ''/z/d/r1.yaml'' then Inr r1_yaml
        else Inl (Err ''malformed''))\<rparr>"

text \<open>
  The device of the example keeps the candidate configuration; its diff is the candidate
  text, empty once committed or rolled back.
\<close>

definition demo_junos :: "(nat, string list) Junos" where
  "demo_junos =
     \<lparr>NewSession = (\<lambda>address auth d. ((Some 7, None), d)),
      Lock = (\<lambda>s d. (Returns None, d)),
      Junos.Config = (\<lambda>s c format merge d.
        case c of Templates ts \<Rightarrow> (Returns None, ts) | Command cmd \<Rightarrow> (Returns None, [])),
      Diff = (\<lambda>s n d. (Returns (concat d, None), d)),
      Commit = (\<lambda>s d. (Returns None, [])),
      Unlock = (\<lambda>s d. (Returns None, d)),
      Close = (\<lambda>s d. (Returns (), d))\<rparr>"

text \<open>The same configuration with a template path that does not parse.\<close>

definition bad_z :: "(unit, unit) Znet" where
  "bad_z = demo_z\<lparr>Znet.Data := (Znet.Data demo_z)\<lparr>TemplatePaths := [''base'', ''{{.Name'']\<rparr>\<rparr>"

text \<open>A device on which the lock fails and the push panics.\<close>

definition broken_junos :: "(nat, string list) Junos" where
  "broken_junos =
     demo_junos\<lparr>Lock := (\<lambda>s d. (Returns (Some (Err ''locked'')), d)),
                Junos.Config := (\<lambda>s c format merge d. (Panics, d))\<rparr>"

text \<open>A device that reports no difference.\<close>

definition quiet_junos :: "(nat, string list) Junos" where
  "quiet_junos = demo_junos\<lparr>Diff := (\<lambda>s n d. (Returns ([], None), d))\<rparr>"

section \<open>Properties of path resolution\<close>

subsection \<open>The loops as list functions\<close>

lemma render_string_fst:
  "fst (render_string lib host t) =
     (case rendered lib host t of None \<Rightarrow> Panics | Some p \<Rightarrow> Returns p)"
  by (simp add: render_string_def Execute_on_def rendered_def split_beta
      split: option.splits prod.splits)

lemma not_warning_log_if_err: "filter is_warning (log_if_err err) = []"
  by (cases err) (simp_all add: is_warning_def Error_def)

lemma render_string_no_warning: "filter is_warning (snd (render_string lib host t)) = []"
  by (simp add: render_string_def Execute_on_def split_beta not_warning_log_if_err
      split: option.splits prod.splits)

lemma TemplateStrings_loop_Returns:
  "fst (TemplateStrings_loop lib host ts (strings, lg)) = Returns ss
     \<longleftrightarrow> (\<exists>ps. ss = strings @ ps \<and> map (rendered lib host) ts = map Some ps)"
proof (induction ts arbitrary: strings lg)
  case Nil
  show ?case by auto
next
  case (Cons t ts)
  obtain o1 lg1 where r: "render_string lib host t = (o1, lg1)"
    by (cases "render_string lib host t")
  with render_string_fst [of lib host t]
  have o1: "o1 = (case rendered lib host t of None \<Rightarrow> Panics | Some p \<Rightarrow> Returns p)"
    by simp
  show ?case
  proof (cases "rendered lib host t")
    case None
    with o1 r show ?thesis by auto
  next
    case (Some p)
    with o1 r Cons.IH [of "strings @ [p]" "lg @ lg1"] show ?thesis
      by (auto simp: map_eq_Cons_conv)
  qed
qed

lemma TemplateStrings_loop_nil:
  "rendered lib host t = None \<Longrightarrow> t \<in> set ts
     \<Longrightarrow> fst (TemplateStrings_loop lib host ts (strings, lg)) = Panics"
proof (induction ts arbitrary: strings lg)
  case Nil
  then show ?case by simp
next
  case (Cons u us)
  obtain o1 lg1 where r: "render_string lib host u = (o1, lg1)"
    by (cases "render_string lib host u")
  with render_string_fst [of lib host u]
  have o1: "o1 = (case rendered lib host u of None \<Rightarrow> Panics | Some p \<Rightarrow> Returns p)"
    by simp
  show ?case
  proof (cases "rendered lib host u")
    case None
    with o1 r show ?thesis by simp
  next
    case (Some p)
    with Cons.prems have "t \<in> set us" by auto
    with Cons.IH [OF Cons.prems(1), of "strings @ [p]" "lg @ lg1"] o1 r Some
    show ?thesis by simp
  qed
qed

lemma TemplateStrings_loop_no_warning:
  "filter is_warning (snd (TemplateStrings_loop lib host ts (strings, lg))) = filter is_warning lg"
proof (induction ts arbitrary: strings lg)
  case Nil
  show ?case by simp
next
  case (Cons t ts)
  obtain o1 lg1 where r: "render_string lib host t = (o1, lg1)"
    by (cases "render_string lib host t")
  with render_string_no_warning [of lib host t] have "filter is_warning lg1 = []"
    by simp
  with r Cons.IH [of _ "lg @ lg1"] show ?case
    by (cases o1) simp_all
qed

lemma render_log_no_warning:
  "filter is_warning (snd (TemplateStringsForDevice lib host ts)) = []"
  by (simp add: TemplateStringsForDevice_def TemplateStrings_loop_no_warning)

lemma TemplateStringsForDevice_Returns:
  "fst (TemplateStringsForDevice lib host ts) = Returns ps
     \<longleftrightarrow> map (rendered lib host) ts = map Some ps"
  by (simp add: TemplateStringsForDevice_def TemplateStrings_loop_Returns)

lemma TemplateStringsForDevice_nil:
  "rendered lib host t = None \<Longrightarrow> t \<in> set ts
     \<Longrightarrow> fst (TemplateStringsForDevice lib host ts) = Panics"
  by (simp add: TemplateStringsForDevice_def TemplateStrings_loop_nil)

lemma Hierarchy_loop_eq:
  "Hierarchy_loop lib z ps (files, lg) =
     (files @ filter (exists_on lib) (map (data_path z) ps),
      lg @ concat (map (data_warning lib z) ps))"
  by (induction ps arbitrary: files lg)
     (simp_all add: data_path_def exists_on_def missing_on_def data_warning_def Let_def
        split: option.splits)

lemma Templates_loop_eq:
  "Templates_loop lib z ps (files, lg) =
     (files @ concat (map (template_files lib z) ps),
      lg @ concat (map (template_log lib z) ps))"
  by (induction ps arbitrary: files lg)
     (simp_all add: template_path_def exists_on_def template_files_def template_log_def
        found_in_def Let_def split: option.splits sum.splits)

lemma HierarchyForDevice_Returns:
  "TemplateStringsForDevice lib host (Hierarchy (Znet.Data z)) = (Returns hp, hlg)
     \<Longrightarrow> HierarchyForDevice lib z host =
           (Returns (filter (exists_on lib) (map (data_path z) hp)),
            hlg @ concat (map (data_warning lib z) hp))"
  by (simp add: HierarchyForDevice_def Hierarchy_loop_eq)

lemma TemplatesForDevice_Returns:
  "TemplateStringsForDevice lib host (TemplatePaths (Znet.Data z)) = (Returns tp, tlg)
     \<Longrightarrow> TemplatesForDevice lib z host =
           (Returns (concat (map (template_files lib z) tp)),
            tlg @ concat (map (template_log lib z) tp))"
  by (simp add: TemplatesForDevice_def Templates_loop_eq)

lemma filter_warning_data_warning:
  "filter is_warning (concat (map (data_warning lib z) ps)) = concat (map (data_warning lib z) ps)"
  by (induction ps) (simp_all add: data_warning_def is_warning_def Warnf_def)

lemma filter_warning_template_log:
  "filter is_warning (concat (map (template_log lib z) ps)) = concat (map (template_warning lib z) ps)"
  by (induction ps)
     (simp_all add: template_log_def template_warning_def missing_on_def is_warning_def
        Warnf_def Error_def split: option.splits sum.splits)

lemma missing_not_exists: "missing_on lib f \<Longrightarrow> \<not> exists_on lib f"
  by (simp add: missing_on_def exists_on_def split: option.splits)

lemma concat_template_files:
  "concat (map (template_files lib z) ps) =
     concat (map (found_in lib) (filter (exists_on lib) (map (template_path z) ps)))"
  by (induction ps) (simp_all add: template_files_def)

subsection \<open>The example's paths\<close>

lemma demo_hierarchy_paths:
  "TemplateStringsForDevice demo_lib demo_host (Hierarchy (Znet.Data demo_z))
     = (Returns [''common.yaml'', ''site.yaml'', ''secret.yaml'', ''r1.yaml''], [])"
  by (simp add: TemplateStringsForDevice_def render_string_def Execute_on_def demo_lib_def
      demo_z_def demo_host_def demo_Execute_def)

lemma demo_template_paths:
  "TemplateStringsForDevice demo_lib demo_host (TemplatePaths (Znet.Data demo_z))
     = (Returns [''base'', ''absent'', ''locked''], [])"
  by (simp add: TemplateStringsForDevice_def render_string_def Execute_on_def demo_lib_def
      demo_z_def demo_host_def demo_Execute_def)

lemma demo_data_path: "data_path demo_z p = ''/z/d/'' @ p"
  by (simp add: data_path_def Sprintf3_def demo_z_def)

lemma demo_template_path: "template_path demo_z p = ''/z/t/'' @ p"
  by (simp add: template_path_def Sprintf3_def demo_z_def)

lemma demo_Stat:
  "Stat demo_lib ''/z/d/common.yaml'' = None"
  "Stat demo_lib ''/z/d/site.yaml'' = Some ErrNotExist"
  "Stat demo_lib ''/z/d/secret.yaml'' = Some ErrPermission"
  "Stat demo_lib ''/z/d/r1.yaml'' = None"
  "Stat demo_lib ''/z/t/base'' = None"
  "Stat demo_lib ''/z/t/absent'' = Some ErrNotExist"
  "Stat demo_lib ''/z/t/locked'' = Some ErrPermission"
  by (simp_all add: demo_lib_def)

lemma demo_Glob:
  "Glob demo_lib ''/z/t/base/*.tmpl'' = Inr [''/z/t/base/a.tmpl'', ''/z/t/base/b.tmpl'']"
  by (simp add: demo_lib_def)

subsection \<open>Rendering of path templates\<close>

text \<open>
  Claim C5 has \<open>TemplateStringsForDevice\<close> return a list as long as its input whatever
  happens to an entry, a render failure of one entry leaving the others to be processed.
  The code does not do that for an entry that fails to parse: it logs the parse error and
  then executes the template all the same, which is the nil pointer; the call panics, the
  loop is left and no list is returned. Here the second of three entries does not parse:
  the function panics with the parse error logged, and the third entry is never rendered.
\<close>

theorem TemplateStringsForDevice_parse_failure_panics:
  "Parse demo_lib ''template'' ''{{.Name'' = (None, Some (Err ''unclosed action''))
   \<and> TemplateStringsForDevice demo_lib demo_host [''common.yaml'', ''{{.Name'', ''{{.Name}}.yaml'']
       = (Panics, [Error (Err ''unclosed action'')])"
  by (simp add: TemplateStringsForDevice_def render_string_def Execute_on_def demo_lib_def
      demo_Execute_def)

subsection \<open>Skip on missing\<close>

text \<open>
  Claim C6. When the rendering of the hierarchy entries returns, \<open>HierarchyForDevice\<close>
  returns, of the absolute paths of the rendered entries, exactly those that exist, in
  the order of the entries; each entry whose path does not exist is left out and leaves
  one warning in the log, and the warnings are all the loop logs. When the rendering of
  the template paths returns, \<open>TemplatesForDevice\<close> returns the glob matches of the
  directories that exist, in the order of the entries; an entry whose directory does not
  exist contributes no file and one warning. In both the entries after a missing one are
  still processed.
\<close>

theorem skip_on_missing:
  "(TemplateStringsForDevice lib host (Hierarchy (Znet.Data z)) = (Returns hp, hlg) \<longrightarrow>
      HierarchyForDevice lib z host
        = (Returns (filter (exists_on lib) (map (data_path z) hp)),
           hlg @ concat (map (data_warning lib z) hp))
    \<and> filter is_warning (snd (HierarchyForDevice lib z host))
        = concat (map (data_warning lib z) hp)
    \<and> (\<forall>p \<in> set hp. missing_on lib (data_path z p) \<longrightarrow>
          (\<forall>files. fst (HierarchyForDevice lib z host) = Returns files \<longrightarrow>
             data_path z p \<notin> set files)
        \<and> Warnf ''Data file %s does not exist'' [AStr (data_path z p)]
            \<in> set (snd (HierarchyForDevice lib z host))))
   \<and> (TemplateStringsForDevice lib host (TemplatePaths (Znet.Data z)) = (Returns tp, tlg) \<longrightarrow>
      TemplatesForDevice lib z host
        = (Returns (concat (map (found_in lib)
                      (filter (exists_on lib) (map (template_path z) tp)))),
           tlg @ concat (map (template_log lib z) tp))
    \<and> filter is_warning (snd (TemplatesForDevice lib z host))
        = concat (map (template_warning lib z) tp)
    \<and> (\<forall>p \<in> set tp. missing_on lib (template_path z p) \<longrightarrow>
          template_files lib z p = []
        \<and> Warnf ''Template path %s does not exist'' [AStr (template_path z p)]
            \<in> set (snd (TemplatesForDevice lib z host))))"
proof (intro conjI impI ballI allI)
  assume h: "TemplateStringsForDevice lib host (Hierarchy (Znet.Data z)) = (Returns hp, hlg)"
  note eq = HierarchyForDevice_Returns [OF h]
  from h have nw: "filter is_warning hlg = []"
    using render_log_no_warning [of lib host "Hierarchy (Znet.Data z)"] by simp
  show "HierarchyForDevice lib z host
        = (Returns (filter (exists_on lib) (map (data_path z) hp)),
           hlg @ concat (map (data_warning lib z) hp))"
    by (rule eq)
  show "filter is_warning (snd (HierarchyForDevice lib z host))
        = concat (map (data_warning lib z) hp)"
    by (simp add: eq nw filter_warning_data_warning)
  {
    fix p files
    assume "p \<in> set hp" and "missing_on lib (data_path z p)"
      and "fst (HierarchyForDevice lib z host) = Returns files"
    then show "data_path z p \<notin> set files"
      by (auto simp: eq missing_not_exists)
  }
  {
    fix p
    assume "p \<in> set hp" and "missing_on lib (data_path z p)"
    then have "Warnf ''Data file %s does not exist'' [AStr (data_path z p)]
                 \<in> set (concat (map (data_warning lib z) hp))"
      by (force simp: data_warning_def)
    then show "Warnf ''Data file %s does not exist'' [AStr (data_path z p)]
                 \<in> set (snd (HierarchyForDevice lib z host))"
      by (simp add: eq)
  }
next
  assume h: "TemplateStringsForDevice lib host (TemplatePaths (Znet.Data z)) = (Returns tp, tlg)"
  note eq = TemplatesForDevice_Returns [OF h]
  from h have nw: "filter is_warning tlg = []"
    using render_log_no_warning [of lib host "TemplatePaths (Znet.Data z)"] by simp
  show "TemplatesForDevice lib z host
        = (Returns (concat (map (found_in lib)
                      (filter (exists_on lib) (map (template_path z) tp)))),
           tlg @ concat (map (template_log lib z) tp))"
    by (simp add: eq concat_template_files)
  show "filter is_warning (snd (TemplatesForDevice lib z host))
        = concat (map (template_warning lib z) tp)"
    by (simp add: eq nw filter_warning_template_log)
  {
    fix p
    assume "p \<in> set tp" and m: "missing_on lib (template_path z p)"
    from m show "template_files lib z p = []"
      by (simp add: template_files_def missing_not_exists)
    from \<open>p \<in> set tp\<close> m
    have "Warnf ''Template path %s does not exist'' [AStr (template_path z p)]
               \<in> set (concat (map (template_log lib z) tp))"
      by (force simp: template_log_def missing_on_def split: option.splits)
    then show "Warnf ''Template path %s does not exist'' [AStr (template_path z p)]
               \<in> set (snd (TemplatesForDevice lib z host))"
      by (simp add: eq)
  }
qed

theorem skip_on_missing_witness:
  "TemplateStringsForDevice demo_lib demo_host (Hierarchy (Znet.Data demo_z))
     = (Returns [''common.yaml'', ''site.yaml'', ''secret.yaml'', ''r1.yaml''], [])
   \<and> TemplateStringsForDevice demo_lib demo_host (TemplatePaths (Znet.Data demo_z))
     = (Returns [''base'', ''absent'', ''locked''], [])
   \<and> missing_on demo_lib (data_path demo_z ''site.yaml'')
   \<and> missing_on demo_lib (template_path demo_z ''absent'')
   \<and> HierarchyForDevice demo_lib demo_z demo_host
       = (Returns [''/z/d/common.yaml'', ''/z/d/r1.yaml''],
          [Warnf ''Data file %s does not exist'' [AStr ''/z/d/site.yaml'']])
   \<and> TemplatesForDevice demo_lib demo_z demo_host
       = (Returns [''/z/t/base/a.tmpl'', ''/z/t/base/b.tmpl''],
          [Warnf ''Template path %s does not exist'' [AStr ''/z/t/absent'']])"
proof -
  note c6 = skip_on_missing [of demo_lib demo_host demo_z
      "[''common.yaml'', ''site.yaml'', ''secret.yaml'', ''r1.yaml'']" "[]"
      "[''base'', ''absent'', ''locked'']" "[]"]
  have m1: "missing_on demo_lib (data_path demo_z ''site.yaml'')"
    by (simp add: missing_on_def demo_data_path demo_Stat)
  have m2: "missing_on demo_lib (template_path demo_z ''absent'')"
    by (simp add: missing_on_def demo_template_path demo_Stat)
  from c6 demo_hierarchy_paths
  have "HierarchyForDevice demo_lib demo_z demo_host
     = (Returns (filter (exists_on demo_lib) (map (data_path demo_z)
                   [''common.yaml'', ''site.yaml'', ''secret.yaml'', ''r1.yaml''])),
        [] @ concat (map (data_warning demo_lib demo_z)
                   [''common.yaml'', ''site.yaml'', ''secret.yaml'', ''r1.yaml'']))"
    by blast
  then have f1: "HierarchyForDevice demo_lib demo_z demo_host
       = (Returns [''/z/d/common.yaml'', ''/z/d/r1.yaml''],
          [Warnf ''Data file %s does not exist'' [AStr ''/z/d/site.yaml'']])"
    by (simp add: demo_data_path exists_on_def data_warning_def missing_on_def demo_Stat)
  from c6 demo_template_paths
  have "TemplatesForDevice demo_lib demo_z demo_host
     = (Returns (concat (map (found_in demo_lib) (filter (exists_on demo_lib)
                   (map (template_path demo_z) [''base'', ''absent'', ''locked''])))),
        [] @ concat (map (template_log demo_lib demo_z) [''base'', ''absent'', ''locked'']))"
    by blast
  then have f2: "TemplatesForDevice demo_lib demo_z demo_host
       = (Returns [''/z/t/base/a.tmpl'', ''/z/t/base/b.tmpl''],
          [Warnf ''Template path %s does not exist'' [AStr ''/z/t/absent'']])"
    by (simp add: demo_template_path exists_on_def found_in_def template_log_def demo_Stat
        demo_Glob)
  from demo_hierarchy_paths demo_template_paths m1 m2 f1 f2 show ?thesis by blast
qed

subsection \<open>The template list\<close>

text \<open>
  Claim C7. When the rendering of the template paths returns, its result has one
  rendered path for each entry of the template path specification, in their order, and
  \<open>TemplatesForDevice\<close> returns the concatenation, over these, of the files the glob
  for \<^verbatim>\<open>*.tmpl\<close> finds in the entry's directory when that directory exists, in the order
  the glob gives them; an entry whose directory does not exist contributes nothing.
\<close>

theorem TemplatesForDevice_concatenates_globs:
  assumes "fst (TemplateStringsForDevice lib host (TemplatePaths (Znet.Data z))) = Returns tp"
  shows "fst (TemplatesForDevice lib z host) = Returns (TemplatesForDevice_spec lib z tp)
       \<and> map (rendered lib host) (TemplatePaths (Znet.Data z)) = map Some tp"
proof -
  obtain tlg where "TemplateStringsForDevice lib host (TemplatePaths (Znet.Data z)) = (Returns tp, tlg)"
    using assms by (cases "TemplateStringsForDevice lib host (TemplatePaths (Znet.Data z))") simp
  from TemplatesForDevice_Returns [OF this]
  have "fst (TemplatesForDevice lib z host) = Returns (TemplatesForDevice_spec lib z tp)"
    by (simp add: TemplatesForDevice_spec_def template_files_def [abs_def] Let_def)
  moreover from assms have "map (rendered lib host) (TemplatePaths (Znet.Data z)) = map Some tp"
    by (simp add: TemplateStringsForDevice_Returns)
  ultimately show ?thesis by blast
qed

theorem TemplatesForDevice_concatenates_globs_witness:
  "fst (TemplateStringsForDevice demo_lib demo_host (TemplatePaths (Znet.Data demo_z)))
     = Returns [''base'', ''absent'', ''locked'']
   \<and> fst (TemplatesForDevice demo_lib demo_z demo_host)
       = Returns [''/z/t/base/a.tmpl'', ''/z/t/base/b.tmpl'']
   \<and> TemplatesForDevice_spec demo_lib demo_z [''base'', ''absent'', ''locked'']
       = [''/z/t/base/a.tmpl'', ''/z/t/base/b.tmpl'']"
proof -
  have h: "fst (TemplateStringsForDevice demo_lib demo_host (TemplatePaths (Znet.Data demo_z)))
     = Returns [''base'', ''absent'', ''locked'']"
    by (simp add: demo_template_paths)
  have s: "TemplatesForDevice_spec demo_lib demo_z [''base'', ''absent'', ''locked'']
          = [''/z/t/base/a.tmpl'', ''/z/t/base/b.tmpl'']"
    by (simp add: TemplatesForDevice_spec_def demo_template_path exists_on_def found_in_def
        demo_Stat demo_Glob)
  from TemplatesForDevice_concatenates_globs [OF h] h s
  show ?thesis by simp
qed

subsection \<open>Other stat errors\<close>

lemma Hierarchy_loop_other_error:
  assumes "Stat lib (data_path z p) = Some e" and "\<not> IsNotExist e"
  shows "Hierarchy_loop lib z (ps @ p # qs) acc = Hierarchy_loop lib z (ps @ qs) acc"
proof -
  obtain files lg where acc: "acc = (files, lg)" by (cases acc)
  from assms have "\<not> exists_on lib (data_path z p)" and "data_warning lib z p = []"
    by (simp_all add: exists_on_def data_warning_def missing_on_def)
  then show ?thesis
    by (simp add: acc Hierarchy_loop_eq)
qed

lemma Templates_loop_other_error:
  assumes "Stat lib (template_path z p) = Some e" and "\<not> IsNotExist e"
  shows "Templates_loop lib z (ps @ p # qs) acc = Templates_loop lib z (ps @ qs) acc"
proof -
  obtain files lg where acc: "acc = (files, lg)" by (cases acc)
  from assms have "template_files lib z p = []" and "template_log lib z p = []"
    by (simp_all add: exists_on_def template_files_def template_log_def)
  then show ?thesis
    by (simp add: acc Templates_loop_eq)
qed

text \<open>
  Claim C10. When the existence check of a rendered entry returns an error that is not a
  not-exist error, the loops of \<open>HierarchyForDevice\<close> and of \<open>TemplatesForDevice\<close> end
  with the same files and the same log as when the entry is not in the list at all, and
  so do the two functions when the rendering has returned the list: the entry is dropped,
  and neither a warning nor an error is logged for it.
\<close>

theorem other_stat_error_dropped_silently:
  "(Stat lib (data_path z p) = Some e \<and> \<not> IsNotExist e \<longrightarrow>
      Hierarchy_loop lib z (ps @ p # qs) acc = Hierarchy_loop lib z (ps @ qs) acc
    \<and> (TemplateStringsForDevice lib host (Hierarchy (Znet.Data z)) = (Returns (ps @ p # qs), lg) \<longrightarrow>
         HierarchyForDevice lib z host
           = (Returns (fst (Hierarchy_loop lib z (ps @ qs) ([], lg))),
              snd (Hierarchy_loop lib z (ps @ qs) ([], lg)))))
   \<and> (Stat lib (template_path z p) = Some e \<and> \<not> IsNotExist e \<longrightarrow>
      Templates_loop lib z (ps @ p # qs) acc = Templates_loop lib z (ps @ qs) acc
    \<and> (TemplateStringsForDevice lib host (TemplatePaths (Znet.Data z)) = (Returns (ps @ p # qs), lg) \<longrightarrow>
         TemplatesForDevice lib z host
           = (Returns (fst (Templates_loop lib z (ps @ qs) ([], lg))),
              snd (Templates_loop lib z (ps @ qs) ([], lg)))))"
  by (simp add: HierarchyForDevice_def TemplatesForDevice_def split_beta
      Hierarchy_loop_other_error Templates_loop_other_error)

theorem other_stat_error_dropped_silently_witness:
  "Stat demo_lib (data_path demo_z ''secret.yaml'') = Some ErrPermission
   \<and> \<not> IsNotExist ErrPermission
   \<and> TemplateStringsForDevice demo_lib demo_host (Hierarchy (Znet.Data demo_z))
       = (Returns ([''common.yaml'', ''site.yaml''] @ ''secret.yaml'' # [''r1.yaml'']), [])
   \<and> HierarchyForDevice demo_lib demo_z demo_host
       = (Returns [''/z/d/common.yaml'', ''/z/d/r1.yaml''],
          [Warnf ''Data file %s does not exist'' [AStr ''/z/d/site.yaml'']])
   \<and> Stat demo_lib (template_path demo_z ''locked'') = Some ErrPermission
   \<and> TemplateStringsForDevice demo_lib demo_host (TemplatePaths (Znet.Data demo_z))
       = (Returns ([''base'', ''absent''] @ ''locked'' # []), [])
   \<and> TemplatesForDevice demo_lib demo_z demo_host
       = (Returns [''/z/t/base/a.tmpl'', ''/z/t/base/b.tmpl''],
          [Warnf ''Template path %s does not exist'' [AStr ''/z/t/absent'']])"
proof -
  have s1: "Stat demo_lib (data_path demo_z ''secret.yaml'') = Some ErrPermission"
    by (simp add: demo_data_path demo_Stat)
  have s2: "Stat demo_lib (template_path demo_z ''locked'') = Some ErrPermission"
    by (simp add: demo_template_path demo_Stat)
  have n: "\<not> IsNotExist ErrPermission"
    by simp
  have p1: "TemplateStringsForDevice demo_lib demo_host (Hierarchy (Znet.Data demo_z))
       = (Returns ([''common.yaml'', ''site.yaml''] @ ''secret.yaml'' # [''r1.yaml'']), [])"
    by (simp add: demo_hierarchy_paths)
  have p2: "TemplateStringsForDevice demo_lib demo_host (TemplatePaths (Znet.Data demo_z))
       = (Returns ([''base'', ''absent''] @ ''locked'' # []), [])"
    by (simp add: demo_template_paths)
  note c10 = other_stat_error_dropped_silently [of demo_lib demo_z _ ErrPermission _ _ _ demo_host "[]"]
  from c10 [of "''secret.yaml''" "[''common.yaml'', ''site.yaml'']" "[''r1.yaml'']"] s1 n p1
  have "HierarchyForDevice demo_lib demo_z demo_host
       = (Returns (fst (Hierarchy_loop demo_lib demo_z ([''common.yaml'', ''site.yaml''] @ [''r1.yaml''])
                          ([], []))),
          snd (Hierarchy_loop demo_lib demo_z ([''common.yaml'', ''site.yaml''] @ [''r1.yaml''])
                 ([], [])))"
    by blast
  then have h: "HierarchyForDevice demo_lib demo_z demo_host
       = (Returns [''/z/d/common.yaml'', ''/z/d/r1.yaml''],
          [Warnf ''Data file %s does not exist'' [AStr ''/z/d/site.yaml'']])"
    by (simp add: Hierarchy_loop_eq data_warning_def missing_on_def exists_on_def
        demo_data_path demo_Stat)
  from c10 [of "''locked''" "[''base'', ''absent'']" "[]"] s2 n p2
  have "TemplatesForDevice demo_lib demo_z demo_host
       = (Returns (fst (Templates_loop demo_lib demo_z ([''base'', ''absent''] @ []) ([], []))),
          snd (Templates_loop demo_lib demo_z ([''base'', ''absent''] @ []) ([], [])))"
    by blast
  then have t: "TemplatesForDevice demo_lib demo_z demo_host
       = (Returns [''/z/t/base/a.tmpl'', ''/z/t/base/b.tmpl''],
          [Warnf ''Template path %s does not exist'' [AStr ''/z/t/absent'']])"
    by (simp add: Templates_loop_eq template_files_def template_log_def found_in_def
        exists_on_def demo_template_path demo_Stat demo_Glob)
  from s1 n p1 h s2 p2 t show ?thesis by blast
qed

section \<open>Properties of data composition\<close>

subsection \<open>One layer merged into the accumulator\<close>

lemma merge_value_not_mapping: "\<not> is_mapping new \<Longrightarrow> merge_value old new = new"
  by (cases old; cases new) simp_all

lemma map_of_upsert:
  "map_of (upsert k v dst) k' =
     (if k' = k then Some (case map_of dst k of None \<Rightarrow> v | Some old \<Rightarrow> merge_value old v)
      else map_of dst k')"
  by (induction dst) auto

lemma map_of_merge_fields_absent:
  "map_of src k = None \<Longrightarrow> map_of (merge_fields dst src) k = map_of dst k"
proof (induction src arbitrary: dst)
  case Nil
  show ?case by simp
next
  case (Cons kv src)
  obtain k' v' where kv: "kv = (k', v')" by (cases kv)
  from Cons.prems kv have ne: "k \<noteq> k'" and rest: "map_of src k = None"
    by (auto split: if_splits)
  have "map_of (merge_fields (upsert k' v' dst) src) k = map_of (upsert k' v' dst) k"
    using Cons.IH [OF rest] .
  also have "\<dots> = map_of dst k"
    using ne by (simp add: map_of_upsert)
  finally show ?case by (simp add: kv)
qed

lemma map_of_merge_fields_present:
  assumes "distinct (map fst src)" and "map_of src k = Some v"
  shows "map_of (merge_fields dst src) k =
           Some (case map_of dst k of None \<Rightarrow> v | Some old \<Rightarrow> merge_value old v)"
  using assms
proof (induction src arbitrary: dst)
  case Nil
  then show ?case by simp
next
  case (Cons kv src)
  obtain k' v' where kv: "kv = (k', v')" by (cases kv)
  from Cons.prems kv have dist: "distinct (map fst src)" and fresh: "k' \<notin> fst ` set src"
    by auto
  show ?case
  proof (cases "k = k'")
    case True
    with Cons.prems kv have v: "v' = v" by simp
    from fresh True have "map_of src k = None"
      by (simp add: map_of_eq_None_iff)
    then have "map_of (merge_fields (upsert k' v' dst) src) k = map_of (upsert k' v' dst) k"
      by (rule map_of_merge_fields_absent)
    then show ?thesis
      using True v by (simp add: kv map_of_upsert)
  next
    case False
    with Cons.prems kv have "map_of src k = Some v" by simp
    from Cons.IH [OF dist this, of "upsert k' v' dst"] False
    show ?thesis by (simp add: kv map_of_upsert)
  qed
qed

subsection \<open>The layers merged in order\<close>

lemma DataForDevice_loop_eq:
  "DataForDevice_loop lib fs (hostData, lg) =
     (foldl merge_fields hostData (layers lib fs),
      lg @ concat (map (\<lambda>f. snd (loadYamlFile lib f [])) fs))"
  by (induction fs arbitrary: hostData lg)
     (simp_all add: layers_def split_beta Merge_WithOverride_def)

lemma DataForDevice_Returns:
  "fst (HierarchyForDevice lib z host) = Returns files
     \<Longrightarrow> fst (DataForDevice lib z host) = Returns (foldl merge_fields [] (layers lib files))"
  by (cases "HierarchyForDevice lib z host")
     (simp add: DataForDevice_def DataForDevice_loop_eq)

lemma DataForDevice_Panics:
  "fst (HierarchyForDevice lib z host) = Panics \<Longrightarrow> fst (DataForDevice lib z host) = Panics"
  by (cases "HierarchyForDevice lib z host") (simp add: DataForDevice_def)

lemma foldl_merge_fields_absent:
  "\<forall>l \<in> set ls. map_of l k = None \<Longrightarrow> map_of (foldl merge_fields acc ls) k = map_of acc k"
  by (induction ls arbitrary: acc) (simp_all add: map_of_merge_fields_absent)

lemma foldl_merge_fields_last:
  assumes "distinct (map fst layer)" and "map_of layer k = Some v"
    and "\<forall>l \<in> set after. map_of l k = None"
  shows "map_of (foldl merge_fields acc (before @ layer # after)) k =
           Some (case map_of (foldl merge_fields acc before) k of
                   None \<Rightarrow> v | Some old \<Rightarrow> merge_value old v)"
  using assms by (simp add: foldl_merge_fields_absent map_of_merge_fields_present)

lemma value_at_merge_value:
  "unique_keys new \<Longrightarrow> value_at p new = Some w \<Longrightarrow> \<not> is_mapping w
     \<Longrightarrow> value_at p (merge_value old new) = Some w"
proof (induction p arbitrary: old new)
  case Nil
  then show ?case by (simp add: merge_value_not_mapping)
next
  case (Cons k p)
  from Cons.prems(2) obtain b where new: "new = Mapping b"
    by (cases new) simp_all
  from Cons.prems(2) new obtain x where x: "map_of b k = Some x" and at: "value_at p x = Some w"
    by (auto split: option.splits)
  from Cons.prems(1) new have dist: "distinct (map fst b)"
    and all: "list_all (\<lambda>(k, v). unique_keys v) b"
    by simp_all
  from x have "(k, x) \<in> set b" by (rule map_of_SomeD)
  with all have ux: "unique_keys x" by (auto simp: list_all_iff)
  show ?case
  proof (cases old)
    case (Mapping a)
    have m: "map_of (merge_fields a b) k =
               Some (case map_of a k of None \<Rightarrow> x | Some old' \<Rightarrow> merge_value old' x)"
      using dist x by (rule map_of_merge_fields_present)
    show ?thesis
    proof (cases "map_of a k")
      case None
      with m at show ?thesis by (simp add: new Mapping)
    next
      case (Some old')
      from Cons.IH [OF ux at Cons.prems(3), of old'] m Some
      show ?thesis by (simp add: new Mapping)
    qed
  qed (use x at in \<open>simp_all add: new\<close>)
qed

subsection \<open>The example's layers\<close>

lemma demo_hierarchy_files:
  "fst (HierarchyForDevice demo_lib demo_z demo_host)
     = Returns [''/z/d/common.yaml'', ''/z/d/r1.yaml'']"
  by (simp add: HierarchyForDevice_Returns [OF demo_hierarchy_paths] demo_data_path
      exists_on_def demo_Stat)

lemma demo_layers:
  "layers demo_lib [''/z/d/common.yaml'', ''/z/d/r1.yaml''] = [common_yaml, r1_yaml]"
  by (simp add: layers_def loadYamlFile_def demo_lib_def)

lemma demo_data:
  "fst (DataForDevice demo_lib demo_z demo_host)
     = Returns [(''site'', Scalar ''west''),
                (''dns'', Scalar ''d''),
                (''ntp'', Sequence [Scalar ''c'']),
                (''bgp'', Mapping [(''as'', Scalar ''1''), (''id'', Scalar ''9'')]),
                (''role'', Scalar ''edge'')]"
  by (simp add: DataForDevice_Returns [OF demo_hierarchy_files] demo_layers common_yaml_def
      r1_yaml_def)

subsection \<open>Merge precedence\<close>

text \<open>
  Claim C1. Take a call of \<open>DataForDevice\<close> in which hierarchy resolution returns, the
  data layers in the order it gives them, and a key; let \<open>layer\<close> be the last layer
  that has the key, with value \<open>v\<close>. Then \<open>DataForDevice\<close> returns, the merged data
  has the key, and its value there is the later layer's: \<open>v\<close> itself when \<open>v\<close> is a
  scalar, a sequence or null, or when the earlier layers gave the key no mapping
  (replaced wholesale, nothing concatenated); the key-by-key merge of the earlier mapping
  with \<open>v\<close> when both are mappings. The merge is recursive: whatever scalar, sequence or
  null \<open>v\<close> holds at any depth, the merged data holds at the same path under the key.
\<close>

theorem DataForDevice_later_layer_wins:
  assumes "fst (HierarchyForDevice lib z host) = Returns files"
    and "layers lib files = before @ layer # after"
    and "distinct (map fst layer)"
    and "map_of layer k = Some v"
    and "\<forall>l \<in> set after. map_of l k = None"
  shows "\<exists>data final.
           fst (DataForDevice lib z host) = Returns data
         \<and> map_of data k = Some final
         \<and> final = (case map_of (foldl merge_fields [] before) k of
                      Some (Mapping a) \<Rightarrow>
                        (case v of Mapping b \<Rightarrow> Mapping (merge_fields a b) | _ \<Rightarrow> v)
                    | _ \<Rightarrow> v)
         \<and> (unique_keys v \<longrightarrow>
              (\<forall>p w. value_at p v = Some w \<and> \<not> is_mapping w \<longrightarrow> value_at p final = Some w))"
proof -
  define prior where "prior = map_of (foldl merge_fields [] before) k"
  define final where "final = (case prior of None \<Rightarrow> v | Some old \<Rightarrow> merge_value old v)"
  define data where "data = foldl merge_fields [] (layers lib files)"
  have "fst (DataForDevice lib z host) = Returns data"
    unfolding data_def using assms(1) by (rule DataForDevice_Returns)
  moreover have "map_of data k = Some final"
    unfolding final_def prior_def data_def assms(2)
    using assms(3-5) by (rule foldl_merge_fields_last)
  moreover have "final = (case prior of
                      Some (Mapping a) \<Rightarrow>
                        (case v of Mapping b \<Rightarrow> Mapping (merge_fields a b) | _ \<Rightarrow> v)
                    | _ \<Rightarrow> v)"
    unfolding final_def by (cases prior; cases v) (auto split: Value.splits)
  moreover have "value_at p final = Some w"
    if "unique_keys v" and "value_at p v = Some w" and "\<not> is_mapping w" for p w
    using that unfolding final_def by (cases prior) (simp_all add: value_at_merge_value)
  ultimately show ?thesis
    unfolding prior_def by blast
qed

theorem DataForDevice_later_layer_wins_witness:
  "fst (HierarchyForDevice demo_lib demo_z demo_host)
     = Returns [''/z/d/common.yaml'', ''/z/d/r1.yaml'']
   \<and> layers demo_lib [''/z/d/common.yaml'', ''/z/d/r1.yaml''] = [common_yaml] @ r1_yaml # []
   \<and> distinct (map fst r1_yaml)
   \<and> map_of common_yaml ''bgp'' = Some (Mapping [(''as'', Scalar ''1''), (''id'', Scalar ''0'')])
   \<and> map_of r1_yaml ''bgp'' = Some (Mapping [(''id'', Scalar ''9'')])
   \<and> map_of common_yaml ''ntp'' = Some (Sequence [Scalar ''a'', Scalar ''b''])
   \<and> map_of r1_yaml ''ntp'' = Some (Sequence [Scalar ''c''])
   \<and> (\<exists>data. fst (DataForDevice demo_lib demo_z demo_host) = Returns data
        \<and> map_of data ''bgp'' = Some (Mapping [(''as'', Scalar ''1''), (''id'', Scalar ''9'')])
        \<and> map_of data ''ntp'' = Some (Sequence [Scalar ''c'']))"
proof -
  have h0: "fst (HierarchyForDevice demo_lib demo_z demo_host)
     = Returns [''/z/d/common.yaml'', ''/z/d/r1.yaml'']"
    by (rule demo_hierarchy_files)
  have h1: "layers demo_lib [''/z/d/common.yaml'', ''/z/d/r1.yaml''] = [common_yaml] @ r1_yaml # []"
    by (simp add: demo_layers)
  have h2: "distinct (map fst r1_yaml)"
    by (simp add: r1_yaml_def)
  have h3: "map_of r1_yaml ''bgp'' = Some (Mapping [(''id'', Scalar ''9'')])"
    by (simp add: r1_yaml_def)
  have h3': "map_of r1_yaml ''ntp'' = Some (Sequence [Scalar ''c''])"
    by (simp add: r1_yaml_def)
  have h4: "\<forall>l \<in> set []. map_of l k = None" for k :: string
    by simp
  have c1: "map_of common_yaml ''bgp'' = Some (Mapping [(''as'', Scalar ''1''), (''id'', Scalar ''0'')])"
    and c2: "map_of common_yaml ''ntp'' = Some (Sequence [Scalar ''a'', Scalar ''b''])"
    by (simp_all add: common_yaml_def)
  from DataForDevice_later_layer_wins [OF h0 h1 h2 h3 h4]
  obtain data where d: "fst (DataForDevice demo_lib demo_z demo_host) = Returns data"
    and bgp: "map_of data ''bgp'' = Some (Mapping [(''as'', Scalar ''1''), (''id'', Scalar ''9'')])"
    by (auto simp: common_yaml_def)
  from DataForDevice_later_layer_wins [OF h0 h1 h2 h3' h4] d
  have ntp: "map_of data ''ntp'' = Some (Sequence [Scalar ''c''])"
    by (auto simp: common_yaml_def)
  from h0 h1 h2 c1 h3 c2 h3' d bgp ntp show ?thesis by blast
qed

subsection \<open>Merge totality\<close>

text \<open>
  Claim C8. In a call of \<open>DataForDevice\<close> in which hierarchy resolution returns, a key
  that exactly one of the host's data layers defines has, in the merged data returned,
  the value that layer gives it, unchanged.
\<close>

theorem DataForDevice_single_layer_key:
  assumes "fst (HierarchyForDevice lib z host) = Returns files"
    and "layers lib files = before @ layer # after"
    and "distinct (map fst layer)"
    and "map_of layer k = Some v"
    and "\<forall>l \<in> set before. map_of l k = None"
    and "\<forall>l \<in> set after. map_of l k = None"
  shows "\<exists>data. fst (DataForDevice lib z host) = Returns data \<and> map_of data k = Some v"
proof -
  have "map_of (foldl merge_fields [] before) k = map_of [] k"
    using assms(5) by (rule foldl_merge_fields_absent)
  then have prior: "map_of (foldl merge_fields [] before) k = None"
    by simp
  have "map_of (foldl merge_fields [] (before @ layer # after)) k =
          Some (case map_of (foldl merge_fields [] before) k of
                  None \<Rightarrow> v | Some old \<Rightarrow> merge_value old v)"
    using assms(3,4,6) by (rule foldl_merge_fields_last)
  then have "map_of (foldl merge_fields [] (layers lib files)) k = Some v"
    by (simp add: assms(2) prior)
  with DataForDevice_Returns [OF assms(1)] show ?thesis
    by blast
qed

theorem DataForDevice_single_layer_key_witness:
  "fst (HierarchyForDevice demo_lib demo_z demo_host)
     = Returns [''/z/d/common.yaml'', ''/z/d/r1.yaml'']
   \<and> layers demo_lib [''/z/d/common.yaml'', ''/z/d/r1.yaml''] = [] @ common_yaml # [r1_yaml]
   \<and> distinct (map fst common_yaml)
   \<and> map_of common_yaml ''dns'' = Some (Scalar ''d'')
   \<and> map_of r1_yaml ''dns'' = None
   \<and> (\<exists>data. fst (DataForDevice demo_lib demo_z demo_host) = Returns data
        \<and> map_of data ''dns'' = Some (Scalar ''d''))"
proof -
  have h0: "fst (HierarchyForDevice demo_lib demo_z demo_host)
     = Returns [''/z/d/common.yaml'', ''/z/d/r1.yaml'']"
    by (rule demo_hierarchy_files)
  have h1: "layers demo_lib [''/z/d/common.yaml'', ''/z/d/r1.yaml''] = [] @ common_yaml # [r1_yaml]"
    by (simp add: demo_layers)
  have h2: "distinct (map fst common_yaml)"
    by (simp add: common_yaml_def)
  have h3: "map_of common_yaml ''dns'' = Some (Scalar ''d'')"
    by (simp add: common_yaml_def)
  have h4: "\<forall>l \<in> set []. map_of l ''dns'' = None"
    by simp
  have h6: "map_of r1_yaml ''dns'' = None"
    by (simp add: r1_yaml_def)
  then have h5: "\<forall>l \<in> set [r1_yaml]. map_of l ''dns'' = None"
    by simp
  from DataForDevice_single_layer_key [OF h0 h1 h2 h3 h4 h5] h0 h1 h2 h3 h6
  show ?thesis by blast
qed

section \<open>Properties of the device session\<close>

subsection \<open>Sequencing\<close>

lemma seq_invoke:
  "seq (invoke f s c rep) k r =
     (case f (device r) of
        (Returns a, d) \<Rightarrow> k a (r\<lparr>device := d, trace := trace r @ [(s, c, rep a)]\<rparr>)
      | (Panics, d) \<Rightarrow> (Panics, r\<lparr>device := d, trace := trace r @ [(s, c, Panicked)]\<rparr>))"
  by (simp add: seq_def invoke_def split: prod.split outcome.split)

lemma seq_emit: "seq (emit es) k r = k () (r\<lparr>logged := logged r @ es\<rparr>)"
  by (simp add: seq_def emit_def)

lemma seq_assoc: "seq (seq m k1) k2 = seq m (\<lambda>a. seq (k1 a) k2)"
  by (rule ext) (simp add: seq_def split: prod.split outcome.split)

lemma trace_invoke:
  "trace (snd (invoke f s c rep r)) =
     trace r @ [(s, c, case fst (f (device r)) of Returns a \<Rightarrow> rep a | Panics \<Rightarrow> Panicked)]"
  by (simp add: invoke_def split: prod.split outcome.split)

lemma device_invoke: "device (snd (invoke f s c rep r)) = snd (f (device r))"
  by (simp add: invoke_def split: prod.split outcome.split)

lemma trace_emit: "trace (snd (emit es r)) = trace r"
  by (simp add: emit_def)

lemma device_emit: "device (snd (emit es r)) = device r"
  by (simp add: emit_def)

lemma replay_append:
  "replay junos d (xs @ ys) =
     (case replay junos d xs of None \<Rightarrow> None | Some d' \<Rightarrow> replay junos d' ys)"
  by (induction xs arbitrary: d) (auto split: prod.splits)

subsection \<open>The calls one run can make\<close>

text \<open>
  Whatever the device answers, the calls from the lock to the unlock are one of six
  sequences: the run stops at the first call that panics; the commit or rollback is there
  exactly when the diff is longer than one byte.
\<close>

lemma session_steps_shape:
  assumes "trace r0 = []"
  shows "(let tr = trace (snd (session_steps junos s host ts commit r0));
              L = (\<lambda>x. (s, CallLock, x));
              C = (\<lambda>x. (s, CallConfig (Templates ts) ''text'' False, x));
              D = (\<lambda>x. (s, CallDiff 0, x));
              K = (\<lambda>x. (s, if commit then CallCommit
                            else CallConfig (Command ''rollback'') ''text'' False, x));
              U = (\<lambda>x. (s, CallUnlock, x))
          in tr = [L Panicked]
           \<or> (\<exists>e1. tr = [L (Done e1), C Panicked])
           \<or> (\<exists>e1 e2. tr = [L (Done e1), C (Done e2), D Panicked])
           \<or> (\<exists>e1 e2 d e x. length d \<le> 1
                \<and> tr = [L (Done e1), C (Done e2), D (DiffText d e), U x])
           \<or> (\<exists>e1 e2 d e. 1 < length d
                \<and> tr = [L (Done e1), C (Done e2), D (DiffText d e), K Panicked])
           \<or> (\<exists>e1 e2 d e e3 x. 1 < length d
                \<and> tr = [L (Done e1), C (Done e2), D (DiffText d e), K (Done e3), U x]))"
  using assms
  by (simp add: session_steps_def seq_assoc seq_invoke seq_emit trace_invoke trace_emit Let_def
      split: prod.split outcome.split)

text \<open>
  The trace tells what was done to the device: the calls it lists, made on the session
  library in its order, are answered as it records and leave the device the run leaves.
\<close>

lemma session_steps_replay:
  assumes "trace r0 = []"
  shows "replay junos (device r0) (trace (snd (session_steps junos s host ts commit r0)))
           = Some (device (snd (session_steps junos s host ts commit r0)))"
  using assms
  by (simp add: session_steps_def seq_assoc seq_invoke seq_emit trace_invoke trace_emit
      device_invoke device_emit Let_def split: prod.split outcome.split)

lemma after_defer_cases:
  assumes "trace r0 = []"
  shows "(\<exists>h r. after_defer lib junos z host s commit r0 = (Panics, h, r)
            \<and> trace r = [] \<and> device r = device r0)
       \<or> (\<exists>data ts r1. fst (DataForDevice lib z host) = Returns data
            \<and> trace r1 = [] \<and> device r1 = device r0
            \<and> snd (snd (after_defer lib junos z host s commit r0))
                = snd (session_steps junos s (host\<lparr>NetworkHost.Data := data\<rparr>) ts commit r1))"
proof (cases "TemplatesForDevice lib z host")
  case (Pair o1 lg1)
  show ?thesis
  proof (cases o1)
    case Panics
    with Pair assms show ?thesis
      by (simp add: after_defer_def add_log_def)
  next
    case (Returns templates)
    note t = this
    show ?thesis
    proof (cases "DataForDevice lib z host")
      case (Pair o2 lg2)
      note d = this
      show ?thesis
      proof (cases o2)
        case Panics
        with \<open>TemplatesForDevice lib z host = (o1, lg1)\<close> t d assms show ?thesis
          by (simp add: after_defer_def add_log_def)
      next
        case (Returns data)
        note dd = this
        show ?thesis
        proof (cases "render_loop lib (host\<lparr>NetworkHost.Data := data\<rparr>) templates ([], [])")
          case (Pair o3 lg3)
          show ?thesis
          proof (cases o3)
            case Panics
            with Pair \<open>TemplatesForDevice lib z host = (o1, lg1)\<close> t d dd assms show ?thesis
              by (simp add: after_defer_def add_log_def)
          next
            case (Returns ts)
            define r1 where "r1 = add_log (lg3 @ [Debugf ''RenderedTemplates: %+v'' [AStrs ts]])
              (add_log lg2 (add_log (lg1 @ [Debugf ''Templates for host %s: %+v''
                                    [AStr (Name host), AStrs templates]]) r0))"
            have "trace r1 = []" and "device r1 = device r0"
              using assms by (simp_all add: r1_def add_log_def)
            moreover have "fst (DataForDevice lib z host) = Returns data"
              using d dd by simp
            moreover have "snd (snd (after_defer lib junos z host s commit r0))
                = snd (session_steps junos s (host\<lparr>NetworkHost.Data := data\<rparr>) ts commit r1)"
              using Pair Returns \<open>TemplatesForDevice lib z host = (o1, lg1)\<close> t d dd
              by (simp add: after_defer_def r1_def split_beta Let_def)
            ultimately show ?thesis by blast
          qed
        qed
      qed
    qed
  qed
qed

lemma ConfigureNetworkHost_run:
  fixes junos :: "('s, 'd) Junos"
  shows "\<exists>body x.
     trace (world_after (ConfigureNetworkHost lib junos z host commit dev))
       = body @ [(session_of lib junos host dev, CallClose, x)]
   \<and> replay junos (connected lib junos host dev)
        (trace (world_after (ConfigureNetworkHost lib junos z host commit dev)))
       = Some (device (world_after (ConfigureNetworkHost lib junos z host commit dev)))
   \<and> (body = []
      \<or> (\<exists>data ts r1. fst (DataForDevice lib z host) = Returns data \<and> trace r1 = []
            \<and> body = trace (snd (session_steps junos (session_of lib junos host dev)
                                   (host\<lparr>NetworkHost.Data := data\<rparr>) ts commit r1))))"
proof -
  obtain session err dev' where new:
    "NewSession junos (HostName host)
       \<lparr>Username = GetString lib ''junos.username'',
        PrivateKey = GetString lib ''junos.keyfile''\<rparr> dev = ((session, err), dev')"
    by (metis prod.exhaust)
  then have s: "session_of lib junos host dev = session"
    and c: "connected lib junos host dev = dev'"
    by (simp_all add: session_of_def connected_def)
  define r0 :: "('s, 'd) run" where
    "r0 = \<lparr>device = dev',
           logged = [Debugf ''Connecting to device: %s'' [AStr (HostName host)]] @ log_if_err err,
           trace = []\<rparr>"
  have r0: "trace r0 = []" "device r0 = dev'"
    by (simp_all add: r0_def)
  define r where "r = snd (snd (after_defer lib junos z host session commit r0))"
  have w: "world_after (ConfigureNetworkHost lib junos z host commit dev)
             = snd (invoke (Close junos session) session CallClose (\<lambda>_. Closed) r)"
    by (simp add: ConfigureNetworkHost_def new r_def r0_def split_beta Let_def)
  from after_defer_cases [OF r0(1), of lib junos z host session commit]
  show ?thesis
  proof (elim disjE exE conjE)
    fix h r'
    assume "after_defer lib junos z host session commit r0 = (Panics, h, r')"
      and "trace r' = []" and "device r' = device r0"
    then have "trace r = []" and "device r = dev'"
      by (simp_all add: r_def r0)
    then show ?thesis
      unfolding s c w
      by (simp add: trace_invoke device_invoke split: prod.split outcome.split)
  next
    fix data ts r1
    assume d: "fst (DataForDevice lib z host) = Returns data"
      and r1: "trace r1 = []" "device r1 = device r0"
      and eq: "snd (snd (after_defer lib junos z host session commit r0))
                = snd (session_steps junos session (host\<lparr>NetworkHost.Data := data\<rparr>) ts commit r1)"
    from session_steps_replay [OF r1(1), of junos session "host\<lparr>NetworkHost.Data := data\<rparr>" ts commit]
    have "replay junos dev' (trace r) = Some (device r)"
      by (simp add: r_def eq r1 r0)
    then have "replay junos dev' (trace (snd (invoke (Close junos session) session CallClose (\<lambda>_. Closed) r)))
        = Some (device (snd (invoke (Close junos session) session CallClose (\<lambda>_. Closed) r)))"
      by (simp add: trace_invoke device_invoke replay_append split: prod.split outcome.split)
    moreover have "trace r = trace (snd (session_steps junos session
                                   (host\<lparr>NetworkHost.Data := data\<rparr>) ts commit r1))"
      by (simp add: r_def eq)
    ultimately show ?thesis
      unfolding s c w using d r1(1) by (auto simp: trace_invoke)
  qed
qed

lemma after_defer_host:
  "Name (fst (snd (after_defer lib junos z host s commit r))) = Name host
   \<and> HostName (fst (snd (after_defer lib junos z host s commit r))) = HostName host
   \<and> (fst (snd (after_defer lib junos z host s commit r)) = host
      \<or> (\<exists>data. fst (DataForDevice lib z host) = Returns data
            \<and> fst (snd (after_defer lib junos z host s commit r))
                = host\<lparr>NetworkHost.Data := data\<rparr>))
   \<and> (\<forall>templates data.
         fst (TemplatesForDevice lib z host) = Returns templates
         \<and> fst (DataForDevice lib z host) = Returns data
         \<longrightarrow> fst (snd (after_defer lib junos z host s commit r))
               = host\<lparr>NetworkHost.Data := data\<rparr>)"
  by (auto simp: after_defer_def Let_def split: prod.splits outcome.splits)

subsection \<open>The example's runs\<close>

lemma demo_templates:
  "fst (TemplatesForDevice demo_lib demo_z demo_host)
     = Returns [''/z/t/base/a.tmpl'', ''/z/t/base/b.tmpl'']"
  by (simp add: TemplatesForDevice_Returns [OF demo_template_paths] template_files_def
      demo_template_path exists_on_def found_in_def demo_Stat demo_Glob)

lemma bad_templates: "fst (TemplatesForDevice demo_lib bad_z demo_host) = Panics"
  by (simp add: TemplatesForDevice_def TemplateStringsForDevice_def render_string_def
      Execute_on_def bad_z_def demo_z_def demo_lib_def demo_Execute_def)

lemma demo_render_a:
  "map_of (NetworkHost.Data h) ''site'' = Some (Scalar x)
     \<Longrightarrow> fst (RenderHostTemplateFile demo_lib h ''/z/t/base/a.tmpl'') = Returns (''A='' @ x)"
  by (simp add: RenderHostTemplateFile_def Execute_on_def demo_lib_def demo_Execute_def)

lemma demo_render_b:
  "fst (RenderHostTemplateFile demo_lib h ''/z/t/base/b.tmpl'') = Returns ''B''"
  by (simp add: RenderHostTemplateFile_def Execute_on_def demo_lib_def demo_Execute_def)

lemma demo_session:
  "session_of demo_lib demo_junos demo_host [] = Some 7"
  "session_of demo_lib broken_junos demo_host [] = Some 7"
  "session_of demo_lib quiet_junos demo_host [] = Some 7"
  by (simp_all add: session_of_def demo_junos_def broken_junos_def quiet_junos_def)

lemma demo_connected:
  "connected demo_lib demo_junos demo_host [] = []"
  "connected demo_lib broken_junos demo_host [] = []"
  "connected demo_lib quiet_junos demo_host [] = []"
  by (simp_all add: connected_def demo_junos_def broken_junos_def quiet_junos_def)

lemma broken_trace:
  "trace (world_after (ConfigureNetworkHost demo_lib broken_junos demo_z demo_host True []))
     = [(Some 7, CallLock, Done (Some (Err ''locked''))),
        (Some 7, CallConfig (Templates [''A=west'', ''B'']) ''text'' False, Panicked),
        (Some 7, CallClose, Closed)]"
  apply (simp add: ConfigureNetworkHost_def after_defer_def split_beta Let_def demo_templates
      demo_data demo_render_a demo_render_b)
  apply (simp add: session_steps_def seq_assoc seq_invoke seq_emit trace_invoke add_log_def
      broken_junos_def demo_junos_def demo_host_def)
  done

lemma broken_ending:
  "ending (ConfigureNetworkHost demo_lib broken_junos demo_z demo_host True []) = Panics"
  apply (simp add: ConfigureNetworkHost_def after_defer_def split_beta Let_def demo_templates
      demo_data demo_render_a demo_render_b)
  apply (simp add: session_steps_def seq_assoc seq_invoke seq_emit add_log_def broken_junos_def
      demo_junos_def demo_host_def)
  done

lemma bad_trace:
  "trace (world_after (ConfigureNetworkHost demo_lib demo_junos bad_z demo_host True []))
     = [(Some 7, CallClose, Closed)]"
  by (simp add: ConfigureNetworkHost_def after_defer_def split_beta Let_def bad_templates
      trace_invoke add_log_def demo_junos_def)

lemma bad_ending:
  "ending (ConfigureNetworkHost demo_lib demo_junos bad_z demo_host True []) = Panics"
  by (simp add: ConfigureNetworkHost_def after_defer_def split_beta Let_def bad_templates)

lemma bad_host:
  "host_after (ConfigureNetworkHost demo_lib demo_junos bad_z demo_host True []) = demo_host"
  by (simp add: ConfigureNetworkHost_def after_defer_def split_beta Let_def bad_templates)

lemma quiet_trace:
  "trace (world_after (ConfigureNetworkHost demo_lib quiet_junos demo_z demo_host True []))
     = [(Some 7, CallLock, Done None),
        (Some 7, CallConfig (Templates [''A=west'', ''B'']) ''text'' False, Done None),
        (Some 7, CallDiff 0, DiffText [] None),
        (Some 7, CallUnlock, Done None),
        (Some 7, CallClose, Closed)]"
  apply (simp add: ConfigureNetworkHost_def after_defer_def split_beta Let_def demo_templates
      demo_data demo_render_a demo_render_b)
  apply (simp add: session_steps_def seq_assoc seq_invoke seq_emit trace_invoke trace_emit
      add_log_def quiet_junos_def demo_junos_def demo_host_def)
  done

lemma quiet_device:
  "device (world_after (ConfigureNetworkHost demo_lib quiet_junos demo_z demo_host True []))
     = [''A=west'', ''B'']"
  apply (simp add: ConfigureNetworkHost_def after_defer_def split_beta Let_def demo_templates
      demo_data demo_render_a demo_render_b)
  apply (simp add: session_steps_def seq_assoc seq_invoke seq_emit device_invoke device_emit
      add_log_def quiet_junos_def demo_junos_def demo_host_def)
  done

lemma demo_trace:
  "trace (world_after (ConfigureNetworkHost demo_lib demo_junos demo_z demo_host commit []))
     = [(Some 7, CallLock, Done None),
        (Some 7, CallConfig (Templates [''A=west'', ''B'']) ''text'' False, Done None),
        (Some 7, CallDiff 0, DiffText ''A=westB'' None),
        (Some 7, if commit then CallCommit else CallConfig (Command ''rollback'') ''text'' False,
         Done None),
        (Some 7, CallUnlock, Done None),
        (Some 7, CallClose, Closed)]"
  apply (simp add: ConfigureNetworkHost_def after_defer_def split_beta Let_def demo_templates
      demo_data demo_render_a demo_render_b)
  apply (simp add: session_steps_def seq_assoc seq_invoke seq_emit trace_invoke trace_emit
      add_log_def demo_junos_def demo_host_def)
  done

lemma demo_device:
  "device (world_after (ConfigureNetworkHost demo_lib demo_junos demo_z demo_host commit [])) = []"
  apply (simp add: ConfigureNetworkHost_def after_defer_def split_beta Let_def demo_templates
      demo_data demo_render_a demo_render_b)
  apply (simp add: session_steps_def seq_assoc seq_invoke seq_emit device_invoke device_emit
      add_log_def demo_junos_def demo_host_def)
  done

subsection \<open>Release of the session\<close>

text \<open>
  Claim C2. In every call of \<open>ConfigureNetworkHost\<close> in which \<open>NewSession\<close> returned
  a session, \<open>Close\<close> is called on that session exactly once, and it is the last call
  of the run: after the body has run to its end, after a later call on the session has
  failed or has panicked, and after resolution or rendering has panicked. The calls the
  run lists are the ones made: replayed on the session library from the device the
  connection attempt left, they are answered as listed and leave the device of the run.
\<close>

theorem ConfigureNetworkHost_closes_session_once:
  fixes junos :: "('s, 'd) Junos"
  assumes "session_of lib junos host dev = Some s"
  shows "\<exists>x. filter (\<lambda>ev. call_of ev = CallClose)
                (trace (world_after (ConfigureNetworkHost lib junos z host commit dev)))
              = [(Some s, CallClose, x)]
            \<and> last (trace (world_after (ConfigureNetworkHost lib junos z host commit dev)))
              = (Some s, CallClose, x)
            \<and> replay junos (connected lib junos host dev)
                 (trace (world_after (ConfigureNetworkHost lib junos z host commit dev)))
              = Some (device (world_after (ConfigureNetworkHost lib junos z host commit dev)))"
proof -
  from ConfigureNetworkHost_run [of lib junos z host commit dev]
  obtain body x where tr: "trace (world_after (ConfigureNetworkHost lib junos z host commit dev))
         = body @ [(Some s, CallClose, x)]"
    and rp: "replay junos (connected lib junos host dev)
        (trace (world_after (ConfigureNetworkHost lib junos z host commit dev)))
       = Some (device (world_after (ConfigureNetworkHost lib junos z host commit dev)))"
    and body: "body = []
      \<or> (\<exists>data ts r1. fst (DataForDevice lib z host) = Returns data \<and> trace r1 = []
            \<and> body = trace (snd (session_steps junos (Some s)
                                   (host\<lparr>NetworkHost.Data := data\<rparr>) ts commit r1)))"
    unfolding assms by blast
  from body have "filter (\<lambda>ev. call_of ev = CallClose) body = []"
  proof (elim disjE exE conjE)
    fix data ts and r1 :: "('s, 'd) run"
    assume r1: "trace r1 = []"
      and b: "body = trace (snd (session_steps junos (Some s)
                                   (host\<lparr>NetworkHost.Data := data\<rparr>) ts commit r1))"
    from session_steps_shape [OF r1, of junos "Some s" "host\<lparr>NetworkHost.Data := data\<rparr>" ts commit]
    show ?thesis
      unfolding b by (auto simp: Let_def)
  qed simp
  with rp show ?thesis
    by (simp add: tr)
qed

theorem ConfigureNetworkHost_closes_session_once_witness:
  "session_of demo_lib broken_junos demo_host [] = Some 7
   \<and> trace (world_after (ConfigureNetworkHost demo_lib broken_junos demo_z demo_host True []))
       = [(Some 7, CallLock, Done (Some (Err ''locked''))),
          (Some 7, CallConfig (Templates [''A=west'', ''B'']) ''text'' False, Panicked),
          (Some 7, CallClose, Closed)]
   \<and> ending (ConfigureNetworkHost demo_lib broken_junos demo_z demo_host True []) = Panics
   \<and> filter (\<lambda>ev. call_of ev = CallClose)
        (trace (world_after (ConfigureNetworkHost demo_lib broken_junos demo_z demo_host True [])))
       = [(Some 7, CallClose, Closed)]
   \<and> session_of demo_lib demo_junos demo_host [] = Some 7
   \<and> fst (TemplatesForDevice demo_lib bad_z demo_host) = Panics
   \<and> ending (ConfigureNetworkHost demo_lib demo_junos bad_z demo_host True []) = Panics
   \<and> trace (world_after (ConfigureNetworkHost demo_lib demo_junos bad_z demo_host True []))
       = [(Some 7, CallClose, Closed)]"
proof -
  have h: "session_of demo_lib broken_junos demo_host [] = Some 7"
    and h': "session_of demo_lib demo_junos demo_host [] = Some 7"
    by (rule demo_session)+
  from ConfigureNetworkHost_closes_session_once [OF h, of demo_z True]
  obtain x where f: "filter (\<lambda>ev. call_of ev = CallClose)
        (trace (world_after (ConfigureNetworkHost demo_lib broken_junos demo_z demo_host True [])))
       = [(Some 7, CallClose, x)]"
    and l: "last (trace (world_after (ConfigureNetworkHost demo_lib broken_junos demo_z demo_host True [])))
       = (Some 7, CallClose, x)"
    by blast
  from l have x: "x = Closed"
    by (simp add: broken_trace)
  from ConfigureNetworkHost_closes_session_once [OF h', of bad_z True]
  obtain y where "filter (\<lambda>ev. call_of ev = CallClose)
        (trace (world_after (ConfigureNetworkHost demo_lib demo_junos bad_z demo_host True [])))
       = [(Some 7, CallClose, y)]"
    by blast
  with bad_trace have "trace (world_after (ConfigureNetworkHost demo_lib demo_junos bad_z demo_host True []))
       = [(Some 7, CallClose, Closed)]"
    by simp
  with f x h h' broken_trace broken_ending bad_templates bad_ending show ?thesis
    by simp
qed

subsection \<open>Trivial diff\<close>

text \<open>
  Claim C3. In every call of \<open>ConfigureNetworkHost\<close> in which the diff came back with a
  text of at most one byte, the calls made on the session are the lock, the push, the
  diff, the unlock and the close, in this order and nothing else: neither the commit nor
  the rollback command is submitted, and the unlock and the close still happen. The
  calls listed are the ones made: replayed on the session library from the device the
  connection attempt left, they are answered as listed and leave the device of the run.
\<close>

theorem trivial_diff_neither_commit_nor_rollback:
  fixes junos :: "('s, 'd) Junos"
  assumes "(r, CallDiff n, DiffText d e)
             \<in> set (trace (world_after (ConfigureNetworkHost lib junos z host commit dev)))"
    and "length d \<le> 1"
  shows "(\<exists>ts e1 e2 x y.
            trace (world_after (ConfigureNetworkHost lib junos z host commit dev))
              = [(session_of lib junos host dev, CallLock, Done e1),
                 (session_of lib junos host dev, CallConfig (Templates ts) ''text'' False, Done e2),
                 (session_of lib junos host dev, CallDiff 0, DiffText d e),
                 (session_of lib junos host dev, CallUnlock, x),
                 (session_of lib junos host dev, CallClose, y)])
       \<and> filter (\<lambda>ev. commit_or_rollback (call_of ev))
            (trace (world_after (ConfigureNetworkHost lib junos z host commit dev))) = []
       \<and> CallUnlock \<in> call_of ` set (trace (world_after (ConfigureNetworkHost lib junos z host commit dev)))
       \<and> CallClose \<in> call_of ` set (trace (world_after (ConfigureNetworkHost lib junos z host commit dev)))
       \<and> replay junos (connected lib junos host dev)
            (trace (world_after (ConfigureNetworkHost lib junos z host commit dev)))
           = Some (device (world_after (ConfigureNetworkHost lib junos z host commit dev)))"
proof -
  define s where "s = session_of lib junos host dev"
  from ConfigureNetworkHost_run [of lib junos z host commit dev]
  obtain body y where tr: "trace (world_after (ConfigureNetworkHost lib junos z host commit dev))
         = body @ [(s, CallClose, y)]"
    and rp: "replay junos (connected lib junos host dev)
        (trace (world_after (ConfigureNetworkHost lib junos z host commit dev)))
       = Some (device (world_after (ConfigureNetworkHost lib junos z host commit dev)))"
    and body: "body = []
      \<or> (\<exists>data ts r1. fst (DataForDevice lib z host) = Returns data \<and> trace r1 = []
            \<and> body = trace (snd (session_steps junos s
                                   (host\<lparr>NetworkHost.Data := data\<rparr>) ts commit r1)))"
    unfolding s_def by blast
  from assms(1) have mem: "(r, CallDiff n, DiffText d e) \<in> set body"
    by (simp add: tr)
  with body obtain data ts and r1 :: "('s, 'd) run" where r1: "trace r1 = []"
    and b: "body = trace (snd (session_steps junos s
                                 (host\<lparr>NetworkHost.Data := data\<rparr>) ts commit r1))"
    by auto
  from session_steps_shape [OF r1, of junos s "host\<lparr>NetworkHost.Data := data\<rparr>" ts commit]
  have "\<exists>e1 e2 x. body = [(s, CallLock, Done e1), (s, CallConfig (Templates ts) ''text'' False, Done e2),
                          (s, CallDiff 0, DiffText d e), (s, CallUnlock, x)]"
    using mem assms(2) unfolding b [symmetric] Let_def
    by (elim disjE exE conjE) (auto split: if_splits)
  then obtain e1 e2 x where
    "body = [(s, CallLock, Done e1), (s, CallConfig (Templates ts) ''text'' False, Done e2),
             (s, CallDiff 0, DiffText d e), (s, CallUnlock, x)]"
    by blast
  then have "trace (world_after (ConfigureNetworkHost lib junos z host commit dev))
      = [(s, CallLock, Done e1), (s, CallConfig (Templates ts) ''text'' False, Done e2),
         (s, CallDiff 0, DiffText d e), (s, CallUnlock, x), (s, CallClose, y)]"
    by (simp add: tr)
  with rp show ?thesis
    unfolding s_def [symmetric] by (intro conjI exI) (assumption, simp_all)
qed

theorem trivial_diff_neither_commit_nor_rollback_witness:
  "(Some 7, CallDiff 0, DiffText [] None)
     \<in> set (trace (world_after (ConfigureNetworkHost demo_lib quiet_junos demo_z demo_host True [])))
   \<and> length ([] :: string) \<le> 1
   \<and> trace (world_after (ConfigureNetworkHost demo_lib quiet_junos demo_z demo_host True []))
       = [(Some 7, CallLock, Done None),
          (Some 7, CallConfig (Templates [''A=west'', ''B'']) ''text'' False, Done None),
          (Some 7, CallDiff 0, DiffText [] None),
          (Some 7, CallUnlock, Done None),
          (Some 7, CallClose, Closed)]
   \<and> filter (\<lambda>ev. commit_or_rollback (call_of ev))
        (trace (world_after (ConfigureNetworkHost demo_lib quiet_junos demo_z demo_host True []))) = []
   \<and> replay quiet_junos []
        (trace (world_after (ConfigureNetworkHost demo_lib quiet_junos demo_z demo_host True [])))
       = Some [''A=west'', ''B'']"
proof -
  have h1: "(Some 7, CallDiff 0, DiffText [] None)
     \<in> set (trace (world_after (ConfigureNetworkHost demo_lib quiet_junos demo_z demo_host True [])))"
    by (simp add: quiet_trace)
  have h2: "length ([] :: string) \<le> 1"
    by simp
  note c3 = trivial_diff_neither_commit_nor_rollback [OF h1 h2]
  from c3 have f: "filter (\<lambda>ev. commit_or_rollback (call_of ev))
        (trace (world_after (ConfigureNetworkHost demo_lib quiet_junos demo_z demo_host True []))) = []"
    by blast
  from c3 have "replay quiet_junos (connected demo_lib quiet_junos demo_host [])
        (trace (world_after (ConfigureNetworkHost demo_lib quiet_junos demo_z demo_host True [])))
       = Some (device (world_after (ConfigureNetworkHost demo_lib quiet_junos demo_z demo_host True [])))"
    by blast
  then have "replay quiet_junos []
        (trace (world_after (ConfigureNetworkHost demo_lib quiet_junos demo_z demo_host True [])))
       = Some [''A=west'', ''B'']"
    by (simp only: demo_connected quiet_device)
  with h1 h2 f quiet_trace show ?thesis
    by simp
qed

subsection \<open>Non-trivial diff\<close>

text \<open>
  Claim C4. In every call of \<open>ConfigureNetworkHost\<close> in which the diff came back with a
  text longer than one byte, exactly one call of the run is a commit or a rollback: the
  commit when the commit flag is set, the rollback command otherwise. The calls listed
  are the ones made: replayed on the session library from the device the connection
  attempt left, they are answered as listed and leave the device of the run.
\<close>

theorem nontrivial_diff_commit_or_rollback:
  fixes junos :: "('s, 'd) Junos"
  assumes "(r, CallDiff n, DiffText d e)
             \<in> set (trace (world_after (ConfigureNetworkHost lib junos z host commit dev)))"
    and "1 < length d"
  shows "(\<exists>x. filter (\<lambda>ev. commit_or_rollback (call_of ev))
                (trace (world_after (ConfigureNetworkHost lib junos z host commit dev)))
              = [(session_of lib junos host dev,
                  if commit then CallCommit else CallConfig (Command ''rollback'') ''text'' False,
                  x)])
       \<and> replay junos (connected lib junos host dev)
            (trace (world_after (ConfigureNetworkHost lib junos z host commit dev)))
           = Some (device (world_after (ConfigureNetworkHost lib junos z host commit dev)))"
proof -
  define s where "s = session_of lib junos host dev"
  from ConfigureNetworkHost_run [of lib junos z host commit dev]
  obtain body y where tr: "trace (world_after (ConfigureNetworkHost lib junos z host commit dev))
         = body @ [(s, CallClose, y)]"
    and rp: "replay junos (connected lib junos host dev)
        (trace (world_after (ConfigureNetworkHost lib junos z host commit dev)))
       = Some (device (world_after (ConfigureNetworkHost lib junos z host commit dev)))"
    and body: "body = []
      \<or> (\<exists>data ts r1. fst (DataForDevice lib z host) = Returns data \<and> trace r1 = []
            \<and> body = trace (snd (session_steps junos s
                                   (host\<lparr>NetworkHost.Data := data\<rparr>) ts commit r1)))"
    unfolding s_def by blast
  from assms(1) have mem: "(r, CallDiff n, DiffText d e) \<in> set body"
    by (simp add: tr)
  with body obtain data ts and r1 :: "('s, 'd) run" where r1: "trace r1 = []"
    and b: "body = trace (snd (session_steps junos s
                                 (host\<lparr>NetworkHost.Data := data\<rparr>) ts commit r1))"
    by auto
  from session_steps_shape [OF r1, of junos s "host\<lparr>NetworkHost.Data := data\<rparr>" ts commit]
  have "\<exists>x. filter (\<lambda>ev. commit_or_rollback (call_of ev)) body
          = [(s, if commit then CallCommit else CallConfig (Command ''rollback'') ''text'' False, x)]"
    using mem assms(2) unfolding b [symmetric] Let_def
    by (elim disjE exE conjE) (auto split: if_splits)
  with rp show ?thesis
    unfolding s_def [symmetric] by (simp add: tr)
qed

theorem nontrivial_diff_commit_or_rollback_witness:
  "(Some 7, CallDiff 0, DiffText ''A=westB'' None)
     \<in> set (trace (world_after (ConfigureNetworkHost demo_lib demo_junos demo_z demo_host True [])))
   \<and> (Some 7, CallDiff 0, DiffText ''A=westB'' None)
     \<in> set (trace (world_after (ConfigureNetworkHost demo_lib demo_junos demo_z demo_host False [])))
   \<and> 1 < length ''A=westB''
   \<and> filter (\<lambda>ev. commit_or_rollback (call_of ev))
        (trace (world_after (ConfigureNetworkHost demo_lib demo_junos demo_z demo_host True [])))
       = [(Some 7, CallCommit, Done None)]
   \<and> filter (\<lambda>ev. commit_or_rollback (call_of ev))
        (trace (world_after (ConfigureNetworkHost demo_lib demo_junos demo_z demo_host False [])))
       = [(Some 7, CallConfig (Command ''rollback'') ''text'' False, Done None)]
   \<and> replay demo_junos []
        (trace (world_after (ConfigureNetworkHost demo_lib demo_junos demo_z demo_host True [])))
       = Some []"
proof -
  have h1: "(Some 7, CallDiff 0, DiffText ''A=westB'' None)
     \<in> set (trace (world_after (ConfigureNetworkHost demo_lib demo_junos demo_z demo_host True [])))"
    by (simp add: demo_trace)
  have h1': "(Some 7, CallDiff 0, DiffText ''A=westB'' None)
     \<in> set (trace (world_after (ConfigureNetworkHost demo_lib demo_junos demo_z demo_host False [])))"
    by (simp add: demo_trace)
  have h2: "1 < length ''A=westB''"
    by simp
  note c4 = nontrivial_diff_commit_or_rollback [OF h1 h2]
  from c4 obtain x where "filter (\<lambda>ev. commit_or_rollback (call_of ev))
        (trace (world_after (ConfigureNetworkHost demo_lib demo_junos demo_z demo_host True [])))
       = [(session_of demo_lib demo_junos demo_host [], CallCommit, x)]"
    by auto
  then have c: "filter (\<lambda>ev. commit_or_rollback (call_of ev))
        (trace (world_after (ConfigureNetworkHost demo_lib demo_junos demo_z demo_host True [])))
       = [(Some 7, CallCommit, Done None)]"
    by (simp add: demo_trace)
  from c4 have "replay demo_junos (connected demo_lib demo_junos demo_host [])
        (trace (world_after (ConfigureNetworkHost demo_lib demo_junos demo_z demo_host True [])))
       = Some (device (world_after (ConfigureNetworkHost demo_lib demo_junos demo_z demo_host True [])))"
    by blast
  then have rp: "replay demo_junos []
        (trace (world_after (ConfigureNetworkHost demo_lib demo_junos demo_z demo_host True [])))
       = Some []"
    by (simp only: demo_connected demo_device)
  from nontrivial_diff_commit_or_rollback [OF h1' h2]
  obtain y where "filter (\<lambda>ev. commit_or_rollback (call_of ev))
        (trace (world_after (ConfigureNetworkHost demo_lib demo_junos demo_z demo_host False [])))
       = [(session_of demo_lib demo_junos demo_host [],
           CallConfig (Command ''rollback'') ''text'' False, y)]"
    by auto
  then have b: "filter (\<lambda>ev. commit_or_rollback (call_of ev))
        (trace (world_after (ConfigureNetworkHost demo_lib demo_junos demo_z demo_host False [])))
       = [(Some 7, CallConfig (Command ''rollback'') ''text'' False, Done None)]"
    by (simp add: demo_trace)
  from h1 h1' h2 c b rp show ?thesis
    by blast
qed

subsection \<open>Frame\<close>

text \<open>
  Claim C9. A call of \<open>ConfigureNetworkHost\<close> leaves the host with every field but
  \<open>Data\<close> as it was, \<open>Name\<close> and \<open>HostName\<close> among them, and the receiver unchanged,
  its \<open>ConfigDir\<close>, \<open>Config\<close> and \<open>Data\<close> among its fields. The host's \<open>Data\<close> is
  the merged data of \<open>DataForDevice\<close> whenever template and data resolution return; when
  one of them panics the host is as it was.
\<close>

theorem ConfigureNetworkHost_frame:
  fixes junos :: "('s, 'd) Junos"
  shows "Name (host_after (ConfigureNetworkHost lib junos z host commit dev)) = Name host
   \<and> HostName (host_after (ConfigureNetworkHost lib junos z host commit dev)) = HostName host
   \<and> z_after (ConfigureNetworkHost lib junos z host commit dev) = z
   \<and> ConfigDir (z_after (ConfigureNetworkHost lib junos z host commit dev)) = ConfigDir z
   \<and> Znet.Config (z_after (ConfigureNetworkHost lib junos z host commit dev)) = Znet.Config z
   \<and> Znet.Data (z_after (ConfigureNetworkHost lib junos z host commit dev)) = Znet.Data z
   \<and> (host_after (ConfigureNetworkHost lib junos z host commit dev) = host
      \<or> (\<exists>data. fst (DataForDevice lib z host) = Returns data
            \<and> host_after (ConfigureNetworkHost lib junos z host commit dev)
                = host\<lparr>NetworkHost.Data := data\<rparr>))
   \<and> (\<forall>templates data.
         fst (TemplatesForDevice lib z host) = Returns templates
         \<and> fst (DataForDevice lib z host) = Returns data
         \<longrightarrow> host_after (ConfigureNetworkHost lib junos z host commit dev)
               = host\<lparr>NetworkHost.Data := data\<rparr>)"
proof -
  obtain session err dev' where new:
    "NewSession junos (HostName host)
       \<lparr>Username = GetString lib ''junos.username'',
        PrivateKey = GetString lib ''junos.keyfile''\<rparr> dev = ((session, err), dev')"
    by (metis prod.exhaust)
  define r0 where "r0 = \<lparr>device = dev',
           logged = [Debugf ''Connecting to device: %s'' [AStr (HostName host)]] @ log_if_err err,
           trace = ([] :: 's event list)\<rparr>"
  have h: "host_after (ConfigureNetworkHost lib junos z host commit dev)
             = fst (snd (after_defer lib junos z host session commit r0))"
    and z: "z_after (ConfigureNetworkHost lib junos z host commit dev) = z"
    by (simp_all add: ConfigureNetworkHost_def new r0_def split_beta Let_def)
  from after_defer_host [of lib junos z host session commit r0] show ?thesis
    unfolding h z by simp
qed

theorem ConfigureNetworkHost_frame_witness:
  "fst (TemplatesForDevice demo_lib demo_z demo_host)
     = Returns [''/z/t/base/a.tmpl'', ''/z/t/base/b.tmpl'']
   \<and> fst (DataForDevice demo_lib demo_z demo_host)
     = Returns [(''site'', Scalar ''west''),
                (''dns'', Scalar ''d''),
                (''ntp'', Sequence [Scalar ''c'']),
                (''bgp'', Mapping [(''as'', Scalar ''1''), (''id'', Scalar ''9'')]),
                (''role'', Scalar ''edge'')]
   \<and> host_after (ConfigureNetworkHost demo_lib demo_junos demo_z demo_host True [])
     = \<lparr>Name = ''r1'', HostName = ''r1.net'',
        NetworkHost.Data =
          [(''site'', Scalar ''west''),
           (''dns'', Scalar ''d''),
           (''ntp'', Sequence [Scalar ''c'']),
           (''bgp'', Mapping [(''as'', Scalar ''1''), (''id'', Scalar ''9'')]),
           (''role'', Scalar ''edge'')]\<rparr>
   \<and> z_after (ConfigureNetworkHost demo_lib demo_junos demo_z demo_host True []) = demo_z
   \<and> fst (TemplatesForDevice demo_lib bad_z demo_host) = Panics
   \<and> host_after (ConfigureNetworkHost demo_lib demo_junos bad_z demo_host True []) = demo_host"
proof -
  note c9 = ConfigureNetworkHost_frame [of demo_lib demo_junos demo_z demo_host True "[]"]
  from c9 have z: "z_after (ConfigureNetworkHost demo_lib demo_junos demo_z demo_host True []) = demo_z"
    by blast
  from c9 have "\<forall>templates data.
         fst (TemplatesForDevice demo_lib demo_z demo_host) = Returns templates
         \<and> fst (DataForDevice demo_lib demo_z demo_host) = Returns data
         \<longrightarrow> host_after (ConfigureNetworkHost demo_lib demo_junos demo_z demo_host True [])
               = demo_host\<lparr>NetworkHost.Data := data\<rparr>"
    by blast
  with demo_templates demo_data
  have "host_after (ConfigureNetworkHost demo_lib demo_junos demo_z demo_host True [])
          = demo_host\<lparr>NetworkHost.Data :=
              [(''site'', Scalar ''west''),
               (''dns'', Scalar ''d''),
               (''ntp'', Sequence [Scalar ''c'']),
               (''bgp'', Mapping [(''as'', Scalar ''1''), (''id'', Scalar ''9'')]),
               (''role'', Scalar ''edge'')]\<rparr>"
    by blast
  then have h: "host_after (ConfigureNetworkHost demo_lib demo_junos demo_z demo_host True [])
     = \<lparr>Name = ''r1'', HostName = ''r1.net'',
        NetworkHost.Data =
          [(''site'', Scalar ''west''),
           (''dns'', Scalar ''d''),
           (''ntp'', Sequence [Scalar ''c'']),
           (''bgp'', Mapping [(''as'', Scalar ''1''), (''id'', Scalar ''9'')]),
           (''role'', Scalar ''edge'')]\<rparr>"
    by (simp add: demo_host_def)
  from demo_templates demo_data h z bad_templates bad_host show ?thesis
    by blast
qed

end
